theory Spec2Isabelle
  imports Main
begin

section \<open>Data model: the relational store\<close>

text \<open>
  The controllers keep no state of their own: every handler reads and writes the three
  tables \<open>rooms\<close>, \<open>room_bookings\<close> and \<open>otp_storage\<close> through
  parameterised SQL. A table is a list of rows (insertion order, duplicates allowed: the
  source declares no key). Timestamps (\<open>sql.DateTime\<close>, \<open>sql.DateTime2\<close>) are the
  instants they denote, as integers (milliseconds); a nullable column is an option. The
  columns \<open>features\<close> and \<open>image\<close> of \<open>rooms\<close> are read by no booking or OTP
  statement and are left out. The \<open>=\<close> of SQL on \<open>NVarChar\<close> values is equality of
  strings here; the database is taken to answer every statement (its failures are not
  modelled), the mail service is not.
\<close>

record room =
  id_room :: int
  name_room :: string
  capacity :: int

record booking =
  event_id :: string
  room_id :: int
  room_name :: "string option"
  subject :: string
  description :: "string option"
  organizer_email :: string
  start_datetime :: int
  end_datetime :: int
  total_participants :: int
  internal_participants :: "int option"
  external_participants :: "int option"
  meeting_type :: string
  attendee_emails :: string
  status :: string
  created_at :: "int option"
  updated_at :: "int option"
  cancelled_at :: "int option"

record otp_row =
  email :: string
  otp :: string
  expires_at :: int
  created_at_otp :: int
  is_verified :: bool

record db =
  rooms :: "room list"
  room_bookings :: "booking list"
  otp_storage :: "otp_row list"

section \<open>Requests, responses, environment and effects\<close>

text \<open>
  \<open>req.body\<close> of the booking handlers. A field the body does not carry (or carries as
  \<open>null\<close>) is \<open>None\<close>. \<open>req_start_datetime\<close> and \<open>req_end_datetime\<close> hold the
  \<open>sql.DateTime\<close> value the driver binds for \<open>new Date(start_datetime)\<close> (the store
  keeps and compares instants at that precision; two instants within one tick are one
  value here); an empty string there is falsy like an absent field, so it is
  \<open>None\<close> too. A number the driver refuses for \<open>sql.Int\<close> is not a request here.
\<close>

record booking_req =
  req_room_id :: "int option"
  req_room_name :: "string option"
  req_subject :: "string option"
  req_description :: "string option"
  req_organizer_email :: "string option"
  req_start_datetime :: "int option"
  req_end_datetime :: "int option"
  req_total_participants :: "int option"
  req_internal_participants :: "int option"
  req_external_participants :: "int option"
  req_meeting_type :: "string option"
  req_attendee_emails :: "string option"

text \<open>The JSON envelope of \<open>res.status(c).json({...})\<close>; a key that is not sent is \<open>None\<close>.\<close>

record response =
  http_status :: nat
  success :: "bool option"
  message :: string
  event_id_sent :: "string option"
  deletedCount :: "nat option"
  error_sent :: "string option"

record mail =
  mail_to :: string
  mail_subject :: string

text \<open>
  Everything a handler takes from outside the store: whether \<open>setDbPool\<close> has run,
  whether the four Graph credentials are set, what the Graph call answers for a mail
  (\<open>None\<close>: accepted, \<open>Some m\<close>: it threw an error with message \<open>m\<close>), the value of
  \<open>crypto.randomUUID()\<close>, the raw randomness behind \<open>crypto.randomInt\<close>, the
  \<open>n\<close>-th reading of the process clock (\<open>Date.now()\<close>, \<open>new Date()\<close>), the
  database's \<open>GETUTCDATE()\<close>, and \<open>NODE_ENV === 'development'\<close>.
\<close>

record env =
  dbPool_set :: bool
  graph_configured :: bool
  graph_error :: "mail \<Rightarrow> string option"
  randomUUID :: string
  random_bits :: nat
  clock :: "nat \<Rightarrow> int"
  getutcdate :: int
  development :: bool

text \<open>
  What a handler does to the outside, in order: a statement is issued either through
  \<open>dbPool.request()\<close> (each statement commits on its own) or through a
  \<open>sql.Request(transaction)\<close>.
\<close>

datatype conn = Pool | Transaction

datatype stmt = SELECT | INSERT | UPDATE | DELETE | MERGE

datatype effect =
  Begin
  | Commit
  | Rollback
  | Sql conn stmt string
  | SendMail mail

type_synonym outcome = "response \<times> db \<times> effect list"

definition response_of :: "outcome \<Rightarrow> response" where
  "response_of out = fst out"

definition db_of :: "outcome \<Rightarrow> db" where
  "db_of out = fst (snd out)"

definition effects_of :: "outcome \<Rightarrow> effect list" where
  "effects_of out = snd (snd out)"

definition reply :: "nat \<Rightarrow> bool option \<Rightarrow> string \<Rightarrow> response" where
  "reply c s m =
     \<lparr>http_status = c, success = s, message = m, event_id_sent = None,
      deletedCount = None, error_sent = None\<rparr>"

subsection \<open>JavaScript truthiness and string conversion\<close>

definition falsy_int :: "int option \<Rightarrow> bool" where
  "falsy_int v = (v = None \<or> v = Some 0)"

definition falsy_str :: "string option \<Rightarrow> bool" where
  "falsy_str v = (v = None \<or> v = Some [])"

definition or_null_int :: "int option \<Rightarrow> int option" where
  "or_null_int v = (if falsy_int v then None else v)"

definition or_null_str :: "string option \<Rightarrow> string option" where
  "or_null_str v = (if falsy_str v then None else v)"

definition or_default :: "string option \<Rightarrow> string \<Rightarrow> string" where
  "or_default v d = (case v of None \<Rightarrow> d | Some s \<Rightarrow> (if s = [] then d else s))"

text \<open>
  A template literal prints an absent value as \<open>undefined\<close> (a \<open>null\<close>, which is
  \<open>None\<close> here as well, as \<open>null\<close>: only the subject line of a mail shows it).
\<close>

definition template_str :: "string option \<Rightarrow> string" where
  "template_str v = (case v of None \<Rightarrow> ''undefined'' | Some s \<Rightarrow> s)"

definition digit_char :: "nat \<Rightarrow> char" where
  "digit_char d = ''0123456789'' ! (d mod 10)"

function digits10 :: "nat \<Rightarrow> string" where
  "digits10 n = (if n < 10 then [digit_char n] else digits10 (n div 10) @ [digit_char (n mod 10)])"
  by pat_completeness auto
termination
  by (relation "measure id") auto

declare digits10.simps [simp del]

definition toString :: "int \<Rightarrow> string" where
  "toString i = (if i < 0 then CHR ''-'' # digits10 (nat (- i)) else digits10 (nat i))"

section \<open>bookingController.js\<close>

text \<open>
  \<open>sendEmail\<close> of the booking controller: without the credentials it returns without
  sending and without an error; otherwise one Graph call is made, and any failure is
  rethrown as \<open>Failed to send email notification.\<close>
\<close>

definition sendEmail :: "env \<Rightarrow> mail \<Rightarrow> (string + unit) \<times> effect list" where
  "sendEmail e m =
     (if \<not> graph_configured e then (Inr (), [])
      else (case graph_error e m of
              None \<Rightarrow> (Inr (), [SendMail m])
            | Some err \<Rightarrow> (Inl ''Failed to send email notification.'', [SendMail m])))"

text \<open>The outer \<open>catch\<close> of a handler: status 500, \<open>error.message || fallback\<close>.\<close>

definition caught :: "env \<Rightarrow> string \<Rightarrow> string \<Rightarrow> response" where
  "caught e msg fallback =
     (reply 500 (Some False) (if msg = [] then fallback else msg))
       \<lparr>error_sent := (if development e then Some msg else None)\<rparr>"

definition confirmed :: "booking \<Rightarrow> bool" where
  "confirmed b = (status b = ''confirmed'')"

text \<open>
  The predicate of both availability queries:
  \<open>start_datetime < @end_datetime AND end_datetime > @start_datetime\<close>.
\<close>

definition slot_taken :: "int \<Rightarrow> int \<Rightarrow> booking \<Rightarrow> bool" where
  "slot_taken s e b = (start_datetime b < e \<and> end_datetime b > s)"

definition missing_booking_fields :: "booking_req \<Rightarrow> bool" where
  "missing_booking_fields q =
     (falsy_int (req_room_id q) \<or> falsy_str (req_subject q) \<or> falsy_str (req_organizer_email q)
      \<or> req_start_datetime q = None \<or> req_end_datetime q = None
      \<or> falsy_int (req_total_participants q))"

definition new_booking :: "env \<Rightarrow> booking_req \<Rightarrow> booking" where
  "new_booking e q =
     \<lparr>event_id = randomUUID e,
      room_id = the (req_room_id q),
      room_name = req_room_name q,
      subject = the (req_subject q),
      description = or_null_str (req_description q),
      organizer_email = the (req_organizer_email q),
      start_datetime = the (req_start_datetime q),
      end_datetime = the (req_end_datetime q),
      total_participants = the (req_total_participants q),
      internal_participants = or_null_int (req_internal_participants q),
      external_participants = or_null_int (req_external_participants q),
      meeting_type = or_default (req_meeting_type q) ''in-person'',
      attendee_emails = or_default (req_attendee_emails q) ''[]'',
      status = ''confirmed'',
      created_at = Some (clock e 0),
      updated_at = None,
      cancelled_at = None\<rparr>"

definition confirmation_mail :: "booking_req \<Rightarrow> mail" where
  "confirmation_mail q =
     \<lparr>mail_to = the (req_organizer_email q),
      mail_subject = ''Booking Confirmed: '' @ the (req_subject q) @ '' at ''
        @ template_str (req_room_name q)\<rparr>"

definition createBooking :: "env \<Rightarrow> db \<Rightarrow> booking_req \<Rightarrow> outcome" where
  "createBooking e d q =
    (if missing_booking_fields q
     then (reply 400 (Some False) ''Missing required booking fields.'', d, [])
     else if \<not> dbPool_set e
     then (reply 500 None ''Database connection not available'', d, [])
     else
      (let rid = the (req_room_id q);
           total = the (req_total_participants q);
           roomCheck = filter (\<lambda>r. id_room r = rid) (rooms d);
           fx1 = [Sql Pool SELECT ''rooms'']
       in case roomCheck of
            [] \<Rightarrow> (reply 404 (Some False) ''Room not found.'', d, fx1)
          | r0 # _ \<Rightarrow>
            (let roomCapacity = capacity r0 in
             if total > roomCapacity
             then (reply 400 (Some False)
                     (''Total participants exceed room capacity of '' @ toString roomCapacity @ ''.''),
                   d, fx1)
             else
              (let bookingStartUtc = the (req_start_datetime q);
                   bookingEndUtc = the (req_end_datetime q);
                   count = length (filter (\<lambda>b. room_id b = rid \<and> confirmed b
                              \<and> slot_taken bookingStartUtc bookingEndUtc b) (room_bookings d));
                   fx2 = fx1 @ [Sql Pool SELECT ''room_bookings'']
               in if count > 0
                  then (reply 409 (Some False)
                          ''The room is already booked for the selected time slot.'', d, fx2)
                  else
                   (let d' = d\<lparr>room_bookings := room_bookings d @ [new_booking e q]\<rparr>;
                        fx3 = fx2 @ [Sql Pool INSERT ''room_bookings''];
                        sent = sendEmail e (confirmation_mail q)
                    in case fst sent of
                         Inl msg \<Rightarrow> (caught e msg ''Failed to create booking.'', d', fx3 @ snd sent)
                       | Inr _ \<Rightarrow>
                           ((reply 201 (Some True) ''Booking created and confirmed successfully!'')
                              \<lparr>event_id_sent := Some (randomUUID e)\<rparr>,
                            d', fx3 @ snd sent))))))"

text \<open>
  \<open>updateBooking\<close> (reschedule). Everything up to \<open>transaction.commit()\<close> goes
  through one \<open>sql.Request(transaction)\<close>; every rejection rolls back, so the store is
  the one the handler found. The \<open>UPDATE\<close> names its rows by \<open>event_id\<close> alone. The
  mail goes out after the commit; when it fails, the \<open>catch\<close> block answers 500 and the
  committed rows stay (\<open>transaction.rolledBack\<close> is not \<open>false\<close> there).
\<close>

definition missing_update_fields :: "string \<Rightarrow> booking_req \<Rightarrow> bool" where
  "missing_update_fields eventId q =
     (eventId = [] \<or> falsy_int (req_room_id q) \<or> falsy_str (req_subject q)
      \<or> falsy_str (req_organizer_email q)
      \<or> req_start_datetime q = None \<or> req_end_datetime q = None
      \<or> falsy_int (req_total_participants q))"

definition rescheduled :: "env \<Rightarrow> booking_req \<Rightarrow> string \<Rightarrow> booking \<Rightarrow> booking" where
  "rescheduled e q newRoomName b =
     b\<lparr>room_id := the (req_room_id q),
       room_name := Some newRoomName,
       subject := the (req_subject q),
       description := or_null_str (req_description q),
       organizer_email := the (req_organizer_email q),
       start_datetime := the (req_start_datetime q),
       end_datetime := the (req_end_datetime q),
       total_participants := the (req_total_participants q),
       internal_participants := or_null_int (req_internal_participants q),
       external_participants := or_null_int (req_external_participants q),
       meeting_type := or_default (req_meeting_type q) ''in-person'',
       attendee_emails := or_default (req_attendee_emails q) ''[]'',
       updated_at := Some (getutcdate e)\<rparr>"

definition reschedule_mail :: "booking_req \<Rightarrow> string \<Rightarrow> mail" where
  "reschedule_mail q newRoomName =
     \<lparr>mail_to = the (req_organizer_email q),
      mail_subject = ''Booking Rescheduled: '' @ the (req_subject q) @ '' at '' @ newRoomName\<rparr>"

definition updateBooking :: "env \<Rightarrow> db \<Rightarrow> string \<Rightarrow> booking_req \<Rightarrow> outcome" where
  "updateBooking e d eventId q =
    (if missing_update_fields eventId q
     then (reply 400 (Some False) ''Missing required fields for booking update.'', d, [])
     else if \<not> dbPool_set e
     then (reply 500 None ''Database connection not available'', d, [])
     else
      (let fx1 = [Begin, Sql Transaction SELECT ''room_bookings''];
           existingBookingResult =
             filter (\<lambda>b. event_id b = eventId \<and> confirmed b) (room_bookings d)
       in case existingBookingResult of
            [] \<Rightarrow> (reply 404 (Some False) ''Original booking not found or already cancelled.'',
                   d, fx1 @ [Rollback])
          | existingBooking # _ \<Rightarrow>
            (let rid = the (req_room_id q);
                 total = the (req_total_participants q);
                 roomCheck = filter (\<lambda>r. id_room r = rid) (rooms d);
                 fx2 = fx1 @ [Sql Transaction SELECT ''rooms'']
             in case roomCheck of
                  [] \<Rightarrow> (reply 404 (Some False) ''The specified room could not be found.'',
                         d, fx2 @ [Rollback])
                | r0 # _ \<Rightarrow>
                  (let newRoomCapacity = capacity r0;
                       newRoomName = name_room r0
                   in if total > newRoomCapacity
                      then (reply 400 (Some False)
                              (''New total participants exceed room capacity of ''
                                 @ toString newRoomCapacity @ ''.''),
                            d, fx2 @ [Rollback])
                      else
                       (let bookingStartUtc = the (req_start_datetime q);
                            bookingEndUtc = the (req_end_datetime q);
                            count = length (filter (\<lambda>b. room_id b = rid \<and> confirmed b
                                       \<and> event_id b \<noteq> eventId
                                       \<and> slot_taken bookingStartUtc bookingEndUtc b)
                                       (room_bookings d));
                            fx3 = fx2 @ [Sql Transaction SELECT ''room_bookings'']
                        in if count > 0
                           then (reply 409 (Some False)
                                  ''The room is already booked for the new time slot (conflict detected).'',
                                 d, fx3 @ [Rollback])
                           else
                            (let rowsAffected =
                                   length (filter (\<lambda>b. event_id b = eventId) (room_bookings d));
                                 d' = d\<lparr>room_bookings :=
                                        map (\<lambda>b. if event_id b = eventId
                                                  then rescheduled e q newRoomName b else b)
                                          (room_bookings d)\<rparr>;
                                 fx4 = fx3 @ [Sql Transaction UPDATE ''room_bookings'']
                             in if rowsAffected = 0
                                then (reply 404 (Some False) ''Booking to update not found.'',
                                      d, fx4 @ [Rollback])
                                else
                                 (let fx5 = fx4 @ [Commit];
                                      sent = sendEmail e (reschedule_mail q newRoomName)
                                  in case fst sent of
                                       Inl msg \<Rightarrow>
                                         (caught e msg ''Failed to update booking.'', d', fx5 @ snd sent)
                                     | Inr _ \<Rightarrow>
                                         (reply 200 (Some True) ''Booking updated successfully!'',
                                          d', fx5 @ snd sent))))))))"

text \<open>
  \<open>cancelBooking\<close>: the \<open>SELECT\<close> asks for the event id, the organizer's address and
  the status at once, so one answer covers "no such booking", "cancelled" and "another
  organizer's". The \<open>UPDATE\<close> again names its rows by \<open>event_id\<close> alone.
\<close>

definition cancelled :: "env \<Rightarrow> booking \<Rightarrow> booking" where
  "cancelled e b =
     b\<lparr>status := ''cancelled'', cancelled_at := Some (getutcdate e),
       updated_at := Some (getutcdate e)\<rparr>"

definition cancellation_mail :: "booking \<Rightarrow> mail" where
  "cancellation_mail b =
     \<lparr>mail_to = organizer_email b,
      mail_subject = ''Your Room Booking for '' @ [CHR 0x22] @ subject b @ [CHR 0x22]
        @ '' Has Been Cancelled''\<rparr>"

definition cancelBooking :: "env \<Rightarrow> db \<Rightarrow> string \<Rightarrow> string option \<Rightarrow> outcome" where
  "cancelBooking e d eventId organizerEmail =
    (if eventId = [] \<or> falsy_str organizerEmail
     then (reply 400 (Some False) ''Event ID and organizer email are required for cancellation.'',
           d, [])
     else if \<not> dbPool_set e
     then (reply 500 None ''Database connection not available'', d, [])
     else
      (let fx1 = [Begin, Sql Transaction SELECT ''room_bookings''];
           bookingResult =
             filter (\<lambda>b. event_id b = eventId \<and> organizer_email b = the organizerEmail
                          \<and> confirmed b) (room_bookings d)
       in case bookingResult of
            [] \<Rightarrow> (reply 404 (Some False)
                     ''Booking not found or not eligible for cancellation by this email.'',
                   d, fx1 @ [Rollback])
          | bookingToCancel # _ \<Rightarrow>
            (let rowsAffected = length (filter (\<lambda>b. event_id b = eventId) (room_bookings d));
                 d' = d\<lparr>room_bookings :=
                        map (\<lambda>b. if event_id b = eventId then cancelled e b else b)
                          (room_bookings d)\<rparr>;
                 fx2 = fx1 @ [Sql Transaction UPDATE ''room_bookings'']
             in if rowsAffected = 0
                then (reply 400 (Some False) ''Failed to update booking status to cancelled.'',
                      d, fx2 @ [Rollback])
                else
                 (let fx3 = fx2 @ [Commit];
                      sent = sendEmail e (cancellation_mail bookingToCancel)
                  in case fst sent of
                       Inl msg \<Rightarrow>
                         (caught e msg ''Failed to cancel the booking due to a server error.'',
                          d', fx3 @ snd sent)
                     | Inr _ \<Rightarrow>
                         (reply 200 (Some True) ''Booking cancelled successfully.'',
                          d', fx3 @ snd sent)))))"

text \<open>
  The gates a request has passed when the handler reaches its availability query: the
  field check, the pool, (for a reschedule) the confirmed row of the event id, the room
  and its capacity. \<open>taken_by\<close> is the \<open>WHERE\<close> clause of the availability query of
  \<open>createBooking\<close>, column by column.
\<close>

definition create_gates :: "env \<Rightarrow> db \<Rightarrow> booking_req \<Rightarrow> bool" where
  "create_gates e d q =
     (\<not> missing_booking_fields q \<and> dbPool_set e \<and>
      (case filter (\<lambda>r. id_room r = the (req_room_id q)) (rooms d) of
         [] \<Rightarrow> False
       | r0 # _ \<Rightarrow> the (req_total_participants q) \<le> capacity r0))"

definition update_gates :: "env \<Rightarrow> db \<Rightarrow> string \<Rightarrow> booking_req \<Rightarrow> bool" where
  "update_gates e d eventId q =
     (\<not> missing_update_fields eventId q \<and> dbPool_set e \<and>
      list_ex (\<lambda>b. event_id b = eventId \<and> confirmed b) (room_bookings d) \<and>
      (case filter (\<lambda>r. id_room r = the (req_room_id q)) (rooms d) of
         [] \<Rightarrow> False
       | r0 # _ \<Rightarrow> the (req_total_participants q) \<le> capacity r0))"

definition taken_by :: "booking_req \<Rightarrow> booking \<Rightarrow> bool" where
  "taken_by q b =
     (room_id b = the (req_room_id q) \<and> status b = ''confirmed''
      \<and> start_datetime b < the (req_end_datetime q)
      \<and> end_datetime b > the (req_start_datetime q))"

text \<open>The row \<open>roomCheck.recordset[0]\<close> of a request that passed the room gate.\<close>

definition target_room :: "db \<Rightarrow> booking_req \<Rightarrow> room" where
  "target_room d q = hd (filter (\<lambda>r. id_room r = the (req_room_id q)) (rooms d))"

section \<open>The no-overlap invariant\<close>

text \<open>
  Two bookings overlap when \<open>A.start < B.end\<close> and \<open>A.end > B.start\<close>; they clash
  when they are confirmed bookings of one room that overlap. \<open>no_overlap\<close> says that no
  two rows at different positions of the table clash (\<open>no_overlap_nth\<close> below).
\<close>

definition overlap :: "booking \<Rightarrow> booking \<Rightarrow> bool" where
  "overlap a b = (start_datetime a < end_datetime b \<and> end_datetime a > start_datetime b)"

definition clash :: "booking \<Rightarrow> booking \<Rightarrow> bool" where
  "clash a b = (room_id a = room_id b \<and> confirmed a \<and> confirmed b \<and> overlap a b)"

fun no_overlap :: "booking list \<Rightarrow> bool" where
  "no_overlap [] = True"
| "no_overlap (b # bs) = (list_all (\<lambda>c. \<not> clash b c) bs \<and> no_overlap bs)"

section \<open>adminController.js\<close>

text \<open>
  \<open>createBookingAdmin\<close>: the field check, the pool, then the \<open>INSERT\<close>. The
  statement has no \<open>description\<close> column, and \<open>internal_participants\<close> and
  \<open>external_participants\<close> are passed as the body has them. No mail is sent. The
  file does not import \<open>crypto\<close>: \<open>crypto.randomUUID()\<close> is the global of the runtime.
\<close>

definition missing_admin_fields :: "booking_req \<Rightarrow> bool" where
  "missing_admin_fields q =
     (falsy_int (req_room_id q) \<or> falsy_str (req_room_name q) \<or> falsy_str (req_subject q)
      \<or> falsy_str (req_organizer_email q)
      \<or> req_start_datetime q = None \<or> req_end_datetime q = None
      \<or> falsy_int (req_total_participants q))"

definition admin_booking :: "env \<Rightarrow> booking_req \<Rightarrow> booking" where
  "admin_booking e q =
     \<lparr>event_id = randomUUID e,
      room_id = the (req_room_id q),
      room_name = req_room_name q,
      subject = the (req_subject q),
      description = None,
      organizer_email = the (req_organizer_email q),
      start_datetime = the (req_start_datetime q),
      end_datetime = the (req_end_datetime q),
      total_participants = the (req_total_participants q),
      internal_participants = req_internal_participants q,
      external_participants = req_external_participants q,
      meeting_type = or_default (req_meeting_type q) ''in-person'',
      attendee_emails = or_default (req_attendee_emails q) ''[]'',
      status = ''confirmed'',
      created_at = Some (clock e 0),
      updated_at = None,
      cancelled_at = None\<rparr>"

definition createBookingAdmin :: "env \<Rightarrow> db \<Rightarrow> booking_req \<Rightarrow> outcome" where
  "createBookingAdmin e d q =
    (if missing_admin_fields q
     then (reply 400 (Some False) ''Missing required fields for admin booking.'', d, [])
     else if \<not> dbPool_set e
     then (reply 500 (Some False) ''Database connection not available.'', d, [])
     else
      ((reply 201 (Some True) ''Booking created by admin successfully.'')
         \<lparr>event_id_sent := Some (randomUUID e)\<rparr>,
       d\<lparr>room_bookings := room_bookings d @ [admin_booking e q]\<rparr>,
       [Sql Pool INSERT ''room_bookings'']))"

section \<open>otpController.js\<close>

text \<open>
  \<open>sendEmail\<close> of the OTP controller throws when the Graph client was not built, and
  rethrows the Graph error as it is.
\<close>

definition sendEmail_otp :: "env \<Rightarrow> mail \<Rightarrow> (string + unit) \<times> effect list" where
  "sendEmail_otp e m =
     (if \<not> graph_configured e
      then (Inl ''Email service is not configured correctly. Check environment variables.'', [])
      else (case graph_error e m of
              None \<Rightarrow> (Inr (), [SendMail m])
            | Some err \<Rightarrow> (Inl err, [SendMail m])))"

text \<open>\<open>crypto.randomInt(min, max)\<close> returns an integer \<open>n\<close> with \<open>min \<le> n < max\<close>.\<close>

definition randomInt :: "env \<Rightarrow> int \<Rightarrow> int \<Rightarrow> int" where
  "randomInt e lo hi = lo + int (random_bits e mod nat (hi - lo))"

definition issued :: "env \<Rightarrow> string \<Rightarrow> otp_row" where
  "issued e em =
     \<lparr>email = em,
      otp = toString (randomInt e 100000 999999),
      expires_at = clock e 0 + 5 * 60 * 1000,
      created_at_otp = clock e 1,
      is_verified = False\<rparr>"

text \<open>
  The \<open>MERGE\<close> on \<open>target.email = source.email\<close>: every matching row is updated in
  place; when no row matches, one row is inserted.
\<close>

definition merge_otp :: "otp_row \<Rightarrow> otp_row list \<Rightarrow> otp_row list" where
  "merge_otp n rows =
     (if list_ex (\<lambda>r. email r = email n) rows
      then map (\<lambda>r. if email r = email n
                    then r\<lparr>otp := otp n, expires_at := expires_at n,
                           created_at_otp := created_at_otp n, is_verified := False\<rparr>
                    else r) rows
      else rows @ [n])"

definition sendOtp :: "env \<Rightarrow> db \<Rightarrow> string option \<Rightarrow> outcome" where
  "sendOtp e d em =
    (if falsy_str em
     then (reply 400 (Some False) ''Email is required.'', d, [])
     else if \<not> dbPool_set e
     then (reply 500 (Some False) ''Database connection not available.'', d, [])
     else
      (let n = issued e (the em);
           d' = d\<lparr>otp_storage := merge_otp n (otp_storage d)\<rparr>;
           fx = [Sql Pool MERGE ''otp_storage''];
           sent = sendEmail_otp e
                    \<lparr>mail_to = the em,
                     mail_subject = ''Your Room Booking Verification Code: '' @ otp n\<rparr>
       in case fst sent of
            Inl msg \<Rightarrow>
              ((reply 500 (Some False) ''Failed to send OTP.'')
                 \<lparr>error_sent := (if development e then Some msg else None)\<rparr>,
               d', fx @ snd sent)
          | Inr _ \<Rightarrow> (reply 200 (Some True) ''OTP sent successfully.'', d', fx @ snd sent)))"

definition cleanupExpiredOtps :: "env \<Rightarrow> db \<Rightarrow> outcome" where
  "cleanupExpiredOtps e d =
    (if \<not> dbPool_set e
     then (reply 500 (Some False) ''Database connection not available'', d, [])
     else
      (let currentTime = clock e 0;
           rowsAffected = length (filter (\<lambda>r. expires_at r < currentTime) (otp_storage d));
           d' = d\<lparr>otp_storage := filter (\<lambda>r. \<not> expires_at r < currentTime) (otp_storage d)\<rparr>
       in ((reply 200 (Some True)
              (''Cleaned up '' @ toString (int rowsAffected) @ '' expired OTP records.''))
             \<lparr>deletedCount := Some rowsAffected\<rparr>,
           d', [Sql Pool DELETE ''otp_storage''])))"

definition all_digits :: "string \<Rightarrow> bool" where
  "all_digits s = list_all (\<lambda>c. c \<in> set ''0123456789'') s"

section \<open>A concrete store\<close>

text \<open>
  The scenario of the specification: one room of capacity 10 with one confirmed booking
  of an hour, \<open>[3600000, 7200000)\<close>, and requests for the same room.
\<close>

definition demo_env :: env where
  "demo_env =
     \<lparr>dbPool_set = True, graph_configured = True, graph_error = (\<lambda>m. None),
      randomUUID = ''uuid-2'', random_bits = 123456, clock = (\<lambda>n. 5000 + int n),
      getutcdate = 5000, development = False\<rparr>"

definition mail_down :: env where
  "mail_down = demo_env\<lparr>graph_error := (\<lambda>m. Some ''ETIMEDOUT'')\<rparr>"

definition demo_booking :: booking where
  "demo_booking =
     \<lparr>event_id = ''uuid-1'', room_id = 1, room_name = Some ''Orion'', subject = ''Standup'',
      description = None, organizer_email = ''ann@example.com'',
      start_datetime = 3600000, end_datetime = 7200000, total_participants = 5,
      internal_participants = None, external_participants = None,
      meeting_type = ''in-person'', attendee_emails = ''[]'', status = ''confirmed'',
      created_at = Some 1000, updated_at = None, cancelled_at = None\<rparr>"

definition demo_db :: db where
  "demo_db =
     \<lparr>rooms = [\<lparr>id_room = 1, name_room = ''Orion'', capacity = 10\<rparr>],
      room_bookings = [demo_booking],
      otp_storage = []\<rparr>"

definition demo_req :: "int \<Rightarrow> int \<Rightarrow> int \<Rightarrow> int \<Rightarrow> booking_req" where
  "demo_req rid s t n =
     \<lparr>req_room_id = Some rid, req_room_name = Some ''Orion'', req_subject = Some ''Review'',
      req_description = None, req_organizer_email = Some ''bob@example.com'',
      req_start_datetime = Some s, req_end_datetime = Some t,
      req_total_participants = Some n, req_internal_participants = None,
      req_external_participants = None, req_meeting_type = None,
      req_attendee_emails = None\<rparr>"

text \<open>The store after the organizer cancelled the booking.\<close>

definition after_cancel :: db where
  "after_cancel = db_of (cancelBooking demo_env demo_db ''uuid-1'' (Some ''ann@example.com''))"

text \<open>A store that already holds a verified record for the address.\<close>

definition otp_db :: db where
  "otp_db = demo_db\<lparr>otp_storage :=
     [\<lparr>email = ''a@b.com'', otp = ''111111'', expires_at = 100, created_at_otp = 50,
       is_verified = True\<rparr>,
      \<lparr>email = ''c@d.com'', otp = ''654321'', expires_at = 999999, created_at_otp = 4000,
       is_verified = False\<rparr>]\<rparr>"

text \<open>The clock of a later call.\<close>

definition later_env :: env where
  "later_env = demo_env\<lparr>clock := (\<lambda>n. 6000 + int n)\<rparr>"

text \<open>
  \<open>createBooking\<close> awaits each statement on the pool, so another request can run
  between its availability query and its \<open>INSERT\<close>. The two halves: the statements
  up to the availability query (\<open>Some r\<close> when the handler answers \<open>r\<close> there,
  \<open>None\<close> when it goes on), and the \<open>INSERT\<close> with the mail.
\<close>

definition createBooking_check :: "env \<Rightarrow> db \<Rightarrow> booking_req \<Rightarrow> response option" where
  "createBooking_check e d q =
    (if missing_booking_fields q
     then Some (reply 400 (Some False) ''Missing required booking fields.'')
     else if \<not> dbPool_set e
     then Some (reply 500 None ''Database connection not available'')
     else
      (case filter (\<lambda>r. id_room r = the (req_room_id q)) (rooms d) of
         [] \<Rightarrow> Some (reply 404 (Some False) ''Room not found.'')
       | r0 # _ \<Rightarrow>
           if the (req_total_participants q) > capacity r0
           then Some (reply 400 (Some False)
                  (''Total participants exceed room capacity of '' @ toString (capacity r0) @ ''.''))
           else if length (filter (\<lambda>b. room_id b = the (req_room_id q) \<and> confirmed b
                     \<and> slot_taken (the (req_start_datetime q)) (the (req_end_datetime q)) b)
                     (room_bookings d)) > 0
           then Some (reply 409 (Some False)
                  ''The room is already booked for the selected time slot.'')
           else None))"

definition createBooking_write :: "env \<Rightarrow> db \<Rightarrow> booking_req \<Rightarrow> response \<times> db" where
  "createBooking_write e d q =
     (case fst (sendEmail e (confirmation_mail q)) of
        Inl msg \<Rightarrow> caught e msg ''Failed to create booking.''
      | Inr _ \<Rightarrow> (reply 201 (Some True) ''Booking created and confirmed successfully!'')
                   \<lparr>event_id_sent := Some (randomUUID e)\<rparr>,
      d\<lparr>room_bookings := room_bookings d @ [new_booking e q]\<rparr>)"

text \<open>A second request in flight, with its own identifier.\<close>

definition other_env :: env where
  "other_env = demo_env\<lparr>randomUUID := ''uuid-3''\<rparr>"

section \<open>Lemmas about the handlers\<close>

lemmas demo_defs = demo_env_def mail_down_def demo_booking_def demo_db_def demo_req_def

lemmas eval_defs = createBooking_def updateBooking_def cancelBooking_def createBookingAdmin_def
  missing_booking_fields_def missing_update_fields_def missing_admin_fields_def
  falsy_int_def falsy_str_def or_null_int_def or_null_str_def or_default_def template_str_def
  confirmed_def slot_taken_def new_booking_def admin_booking_def rescheduled_def cancelled_def
  confirmation_mail_def reschedule_mail_def cancellation_mail_def sendEmail_def caught_def reply_def
  response_of_def db_of_def effects_of_def Let_def

lemma clash_sym: "clash a b = clash b a"
  by (auto simp: clash_def overlap_def)

lemma no_overlap_append:
  "no_overlap (xs @ [y]) = (no_overlap xs \<and> list_all (\<lambda>c. \<not> clash c y) xs)"
  by (induction xs) (auto simp: list_all_iff clash_sym)

lemma no_overlap_nth:
  "no_overlap bs = (\<forall>i<length bs. \<forall>j<length bs. i \<noteq> j \<longrightarrow> \<not> clash (bs ! i) (bs ! j))"
proof (induction bs)
  case Nil
  then show ?case by simp
next
  case (Cons b bs)
  show ?case
  proof
    assume L: "no_overlap (b # bs)"
    then have hb: "\<forall>c\<in>set bs. \<not> clash b c" and hbs: "no_overlap bs"
      by (auto simp: list_all_iff)
    show "\<forall>i<length (b # bs). \<forall>j<length (b # bs). i \<noteq> j \<longrightarrow> \<not> clash ((b # bs) ! i) ((b # bs) ! j)"
    proof (intro allI impI)
      fix i j
      assume i: "i < length (b # bs)" and j: "j < length (b # bs)" and ij: "i \<noteq> j"
      show "\<not> clash ((b # bs) ! i) ((b # bs) ! j)"
      proof (cases i)
        case 0
        then obtain j' where "j = Suc j'" using ij by (cases j) auto
        with 0 j hb show ?thesis by simp
      next
        case (Suc i')
        show ?thesis
        proof (cases j)
          case 0
          with Suc i hb show ?thesis by (simp add: clash_sym [of _ b])
        next
          case (Suc j')
          with \<open>i = Suc i'\<close> i j ij hbs Cons.IH show ?thesis by simp
        qed
      qed
    qed
  next
    assume R: "\<forall>i<length (b # bs). \<forall>j<length (b # bs). i \<noteq> j \<longrightarrow> \<not> clash ((b # bs) ! i) ((b # bs) ! j)"
    have "\<forall>c\<in>set bs. \<not> clash b c"
    proof
      fix c assume "c \<in> set bs"
      then obtain k where k: "k < length bs" "bs ! k = c" by (auto simp: in_set_conv_nth)
      from R [rule_format, of 0 "Suc k"] k show "\<not> clash b c" by simp
    qed
    moreover have "no_overlap bs"
    proof -
      have "\<forall>i<length bs. \<forall>j<length bs. i \<noteq> j \<longrightarrow> \<not> clash (bs ! i) (bs ! j)"
      proof (intro allI impI)
        fix i j assume "i < length bs" "j < length bs" "i \<noteq> j"
        with R [rule_format, of "Suc i" "Suc j"] show "\<not> clash (bs ! i) (bs ! j)" by simp
      qed
      with Cons.IH show ?thesis by simp
    qed
    ultimately show "no_overlap (b # bs)" by (simp add: list_all_iff)
  qed
qed

lemma createBooking_db:
  "db_of (createBooking e d q) = d \<or>
   (db_of (createBooking e d q) = d\<lparr>room_bookings := room_bookings d @ [new_booking e q]\<rparr>
    \<and> (\<forall>b\<in>set (room_bookings d). \<not> (room_id b = the (req_room_id q) \<and> confirmed b
          \<and> slot_taken (the (req_start_datetime q)) (the (req_end_datetime q)) b)))"
  by (auto simp: createBooking_def db_of_def Let_def filter_empty_conv split: list.splits sum.splits)

lemma clash_new_booking:
  "clash c (new_booking e q) \<Longrightarrow>
     room_id c = the (req_room_id q) \<and> confirmed c
     \<and> slot_taken (the (req_start_datetime q)) (the (req_end_datetime q)) c"
  by (simp add: clash_def overlap_def slot_taken_def new_booking_def)

lemma createBooking_no_overlap:
  assumes inv: "no_overlap (room_bookings d)"
  shows "no_overlap (room_bookings (db_of (createBooking e d q)))"
proof -
  from createBooking_db [of e d q] show ?thesis
  proof
    assume "db_of (createBooking e d q) = d"
    with inv show ?thesis by simp
  next
    assume h: "db_of (createBooking e d q) = d\<lparr>room_bookings := room_bookings d @ [new_booking e q]\<rparr>
      \<and> (\<forall>b\<in>set (room_bookings d). \<not> (room_id b = the (req_room_id q) \<and> confirmed b
          \<and> slot_taken (the (req_start_datetime q)) (the (req_end_datetime q)) b))"
    then have "\<forall>c\<in>set (room_bookings d). \<not> clash c (new_booking e q)"
      using clash_new_booking by blast
    with h inv show ?thesis by (simp add: no_overlap_append list_all_iff)
  qed
qed

lemma updateBooking_db:
  "db_of (updateBooking e d eid q) = d \<or>
   (\<exists>nm. db_of (updateBooking e d eid q) =
        d\<lparr>room_bookings := map (\<lambda>b. if event_id b = eid then rescheduled e q nm b else b)
             (room_bookings d)\<rparr>
    \<and> (\<forall>b\<in>set (room_bookings d). \<not> (room_id b = the (req_room_id q) \<and> confirmed b
          \<and> event_id b \<noteq> eid
          \<and> slot_taken (the (req_start_datetime q)) (the (req_end_datetime q)) b)))"
  by (auto simp: updateBooking_def db_of_def Let_def filter_empty_conv split: list.splits sum.splits)

lemma rescheduled_simps:
  "room_id (rescheduled e q nm b) = the (req_room_id q)"
  "start_datetime (rescheduled e q nm b) = the (req_start_datetime q)"
  "end_datetime (rescheduled e q nm b) = the (req_end_datetime q)"
  "event_id (rescheduled e q nm b) = event_id b"
  "confirmed (rescheduled e q nm b) = confirmed b"
  "organizer_email (rescheduled e q nm b) = the (req_organizer_email q)"
  by (simp_all add: rescheduled_def confirmed_def)

lemma reschedule_no_overlap:
  assumes inv: "no_overlap bs"
    and ids: "distinct (map event_id bs)"
    and free: "\<forall>b\<in>set bs. \<not> (room_id b = the (req_room_id q) \<and> confirmed b
          \<and> event_id b \<noteq> eid
          \<and> slot_taken (the (req_start_datetime q)) (the (req_end_datetime q)) b)"
  shows "no_overlap (map (\<lambda>b. if event_id b = eid then rescheduled e q nm b else b) bs)"
proof -
  let ?f = "\<lambda>b. if event_id b = eid then rescheduled e q nm b else b"
  have "\<not> clash (?f (bs ! i)) (?f (bs ! j))"
    if i: "i < length bs" and j: "j < length bs" and ij: "i \<noteq> j" for i j
  proof -
    from ids i j ij have ne: "event_id (bs ! i) \<noteq> event_id (bs ! j)"
      by (simp add: distinct_conv_nth)
    from inv i j ij have old: "\<not> clash (bs ! i) (bs ! j)"
      by (simp add: no_overlap_nth)
    from i j have mem: "bs ! i \<in> set bs" "bs ! j \<in> set bs" by simp_all
    show ?thesis
    proof (cases "event_id (bs ! i) = eid")
      case True
      with ne have nj: "event_id (bs ! j) \<noteq> eid" by simp
      from free mem(2) nj have
        "\<not> (room_id (bs ! j) = the (req_room_id q) \<and> confirmed (bs ! j)
            \<and> slot_taken (the (req_start_datetime q)) (the (req_end_datetime q)) (bs ! j))"
        by blast
      with True nj show ?thesis
        by (auto simp: clash_def overlap_def slot_taken_def rescheduled_simps)
    next
      case False
      show ?thesis
      proof (cases "event_id (bs ! j) = eid")
        case True
        from free mem(1) False have
          "\<not> (room_id (bs ! i) = the (req_room_id q) \<and> confirmed (bs ! i)
              \<and> slot_taken (the (req_start_datetime q)) (the (req_end_datetime q)) (bs ! i))"
          by blast
        with True False show ?thesis
          by (auto simp: clash_def overlap_def slot_taken_def rescheduled_simps)
      next
        case nj: False
        with False old show ?thesis by simp
      qed
    qed
  qed
  then show ?thesis by (simp add: no_overlap_nth)
qed

lemma updateBooking_no_overlap:
  assumes inv: "no_overlap (room_bookings d)"
    and ids: "distinct (map event_id (room_bookings d))"
  shows "no_overlap (room_bookings (db_of (updateBooking e d eid q)))"
proof -
  from updateBooking_db [of e d eid q] show ?thesis
  proof
    assume "db_of (updateBooking e d eid q) = d"
    with inv show ?thesis by simp
  next
    assume "\<exists>nm. db_of (updateBooking e d eid q) =
        d\<lparr>room_bookings := map (\<lambda>b. if event_id b = eid then rescheduled e q nm b else b)
             (room_bookings d)\<rparr>
    \<and> (\<forall>b\<in>set (room_bookings d). \<not> (room_id b = the (req_room_id q) \<and> confirmed b
          \<and> event_id b \<noteq> eid
          \<and> slot_taken (the (req_start_datetime q)) (the (req_end_datetime q)) b))"
    then obtain nm where
      eq: "db_of (updateBooking e d eid q) =
        d\<lparr>room_bookings := map (\<lambda>b. if event_id b = eid then rescheduled e q nm b else b)
             (room_bookings d)\<rparr>"
      and free: "\<forall>b\<in>set (room_bookings d). \<not> (room_id b = the (req_room_id q) \<and> confirmed b
          \<and> event_id b \<noteq> eid
          \<and> slot_taken (the (req_start_datetime q)) (the (req_end_datetime q)) b)"
      by blast
    from reschedule_no_overlap [OF inv ids free, of e nm] eq show ?thesis by simp
  qed
qed

lemma updateBooking_ids:
  "map event_id (room_bookings (db_of (updateBooking e d eid q))) = map event_id (room_bookings d)"
  using updateBooking_db [of e d eid q]
  by (auto simp: rescheduled_simps)

lemma filter_Nil_list_ex: "(filter P xs = []) = (\<not> list_ex P xs)"
  by (simp add: filter_empty_conv list_ex_iff)

lemma taken_by_eq:
  "(\<lambda>b. room_id b = the (req_room_id q) \<and> confirmed b
        \<and> slot_taken (the (req_start_datetime q)) (the (req_end_datetime q)) b) = taken_by q"
  by (auto simp: fun_eq_iff taken_by_def confirmed_def slot_taken_def)

lemma taken_by_other_eq:
  "(\<lambda>b. room_id b = the (req_room_id q) \<and> confirmed b \<and> event_id b \<noteq> eid
        \<and> slot_taken (the (req_start_datetime q)) (the (req_end_datetime q)) b)
   = (\<lambda>b. event_id b \<noteq> eid \<and> taken_by q b)"
  by (auto simp: fun_eq_iff taken_by_def confirmed_def slot_taken_def)

lemma create_gatesD:
  assumes "create_gates e d q"
  obtains r0 rs where "\<not> missing_booking_fields q" "dbPool_set e"
    "filter (\<lambda>r. id_room r = the (req_room_id q)) (rooms d) = r0 # rs"
    "\<not> the (req_total_participants q) > capacity r0"
  using assms by (auto simp: create_gates_def split: list.splits)

lemma createBooking_taken:
  assumes g: "create_gates e d q" and t: "list_ex (taken_by q) (room_bookings d)"
  shows "createBooking e d q =
     (reply 409 (Some False) ''The room is already booked for the selected time slot.'', d,
      [Sql Pool SELECT ''rooms'', Sql Pool SELECT ''room_bookings''])"
proof -
  from g obtain r0 rs where h: "\<not> missing_booking_fields q" "dbPool_set e"
    "filter (\<lambda>r. id_room r = the (req_room_id q)) (rooms d) = r0 # rs"
    "\<not> the (req_total_participants q) > capacity r0"
    by (rule create_gatesD)
  from h t show ?thesis
    by (simp add: createBooking_def Let_def filter_Nil_list_ex taken_by_eq)
qed

lemma createBooking_free:
  assumes g: "create_gates e d q" and t: "\<not> list_ex (taken_by q) (room_bookings d)"
  shows "createBooking e d q =
     (case fst (sendEmail e (confirmation_mail q)) of
        Inl msg \<Rightarrow> caught e msg ''Failed to create booking.''
      | Inr _ \<Rightarrow> (reply 201 (Some True) ''Booking created and confirmed successfully!'')
                   \<lparr>event_id_sent := Some (randomUUID e)\<rparr>,
      d\<lparr>room_bookings := room_bookings d @ [new_booking e q]\<rparr>,
      [Sql Pool SELECT ''rooms'', Sql Pool SELECT ''room_bookings'',
       Sql Pool INSERT ''room_bookings''] @ snd (sendEmail e (confirmation_mail q)))"
proof -
  from g obtain r0 rs where h: "\<not> missing_booking_fields q" "dbPool_set e"
    "filter (\<lambda>r. id_room r = the (req_room_id q)) (rooms d) = r0 # rs"
    "\<not> the (req_total_participants q) > capacity r0"
    by (rule create_gatesD)
  from h t show ?thesis
    by (simp add: createBooking_def Let_def filter_Nil_list_ex taken_by_eq split: sum.splits)
qed

lemma createBooking_409:
  assumes g: "create_gates e d q"
  shows "(http_status (response_of (createBooking e d q)) = 409) =
         list_ex (taken_by q) (room_bookings d)"
proof (cases "list_ex (taken_by q) (room_bookings d)")
  case True
  with createBooking_taken [OF g True] show ?thesis
    by (simp add: response_of_def reply_def)
next
  case False
  with createBooking_free [OF g False] show ?thesis
    by (simp add: response_of_def reply_def caught_def split: sum.splits)
qed

lemma update_gatesD:
  assumes "update_gates e d eid q"
  obtains b0 bs r0 rs where "\<not> missing_update_fields eid q" "dbPool_set e"
    "filter (\<lambda>b. event_id b = eid \<and> confirmed b) (room_bookings d) = b0 # bs"
    "filter (\<lambda>r. id_room r = the (req_room_id q)) (rooms d) = r0 # rs"
    "\<not> the (req_total_participants q) > capacity r0"
proof -
  from assms have "filter (\<lambda>b. event_id b = eid \<and> confirmed b) (room_bookings d) \<noteq> []"
    by (simp add: update_gates_def filter_Nil_list_ex)
  then obtain b0 bs where
    "filter (\<lambda>b. event_id b = eid \<and> confirmed b) (room_bookings d) = b0 # bs"
    by (cases "filter (\<lambda>b. event_id b = eid \<and> confirmed b) (room_bookings d)") auto
  with assms that show ?thesis
    by (auto simp: update_gates_def split: list.splits)
qed

lemma filter_event_id_nonempty:
  assumes "filter (\<lambda>b. event_id b = eid \<and> confirmed b) bs = b0 # rest"
  shows "filter (\<lambda>b. event_id b = eid) bs \<noteq> []"
proof -
  from assms have "b0 \<in> set (filter (\<lambda>b. event_id b = eid \<and> confirmed b) bs)" by simp
  then have "b0 \<in> set bs" "event_id b0 = eid" by auto
  then show ?thesis by (auto simp: filter_empty_conv)
qed

lemma updateBooking_taken:
  assumes g: "update_gates e d eid q"
    and t: "list_ex (\<lambda>b. event_id b \<noteq> eid \<and> taken_by q b) (room_bookings d)"
  shows "updateBooking e d eid q =
     (reply 409 (Some False)
        ''The room is already booked for the new time slot (conflict detected).'', d,
      [Begin, Sql Transaction SELECT ''room_bookings'', Sql Transaction SELECT ''rooms'',
       Sql Transaction SELECT ''room_bookings'', Rollback])"
proof -
  from g obtain b0 bs r0 rs where h: "\<not> missing_update_fields eid q" "dbPool_set e"
    "filter (\<lambda>b. event_id b = eid \<and> confirmed b) (room_bookings d) = b0 # bs"
    "filter (\<lambda>r. id_room r = the (req_room_id q)) (rooms d) = r0 # rs"
    "\<not> the (req_total_participants q) > capacity r0"
    by (rule update_gatesD)
  from h t show ?thesis
    by (simp add: updateBooking_def Let_def filter_Nil_list_ex taken_by_other_eq)
qed

lemma updateBooking_free:
  assumes g: "update_gates e d eid q"
    and t: "\<not> list_ex (\<lambda>b. event_id b \<noteq> eid \<and> taken_by q b) (room_bookings d)"
  shows "updateBooking e d eid q =
     (case fst (sendEmail e (reschedule_mail q (name_room (target_room d q)))) of
        Inl msg \<Rightarrow> caught e msg ''Failed to update booking.''
      | Inr _ \<Rightarrow> reply 200 (Some True) ''Booking updated successfully!'',
      d\<lparr>room_bookings :=
          map (\<lambda>b. if event_id b = eid
                    then rescheduled e q (name_room (target_room d q)) b else b)
            (room_bookings d)\<rparr>,
      [Begin, Sql Transaction SELECT ''room_bookings'', Sql Transaction SELECT ''rooms'',
       Sql Transaction SELECT ''room_bookings'', Sql Transaction UPDATE ''room_bookings'',
       Commit] @ snd (sendEmail e (reschedule_mail q (name_room (target_room d q)))))"
proof -
  from g obtain b0 bs r0 rs where h: "\<not> missing_update_fields eid q" "dbPool_set e"
    "filter (\<lambda>b. event_id b = eid \<and> confirmed b) (room_bookings d) = b0 # bs"
    "filter (\<lambda>r. id_room r = the (req_room_id q)) (rooms d) = r0 # rs"
    "\<not> the (req_total_participants q) > capacity r0"
    by (rule update_gatesD)
  from h(3) have ne: "filter (\<lambda>b. event_id b = eid) (room_bookings d) \<noteq> []"
    by (rule filter_event_id_nonempty)
  from h ne t show ?thesis
    by (simp add: updateBooking_def Let_def filter_Nil_list_ex taken_by_other_eq target_room_def
        split: sum.splits)
qed

lemma updateBooking_409:
  assumes g: "update_gates e d eid q"
  shows "(http_status (response_of (updateBooking e d eid q)) = 409) =
         list_ex (\<lambda>b. event_id b \<noteq> eid \<and> taken_by q b) (room_bookings d)"
proof (cases "list_ex (\<lambda>b. event_id b \<noteq> eid \<and> taken_by q b) (room_bookings d)")
  case True
  with updateBooking_taken [OF g True] show ?thesis
    by (simp add: response_of_def reply_def)
next
  case False
  with updateBooking_free [OF g False] show ?thesis
    by (simp add: response_of_def reply_def caught_def split: sum.splits)
qed

lemma createBooking_ids:
  assumes "distinct (map event_id (room_bookings d))"
    and "randomUUID e \<notin> set (map event_id (room_bookings d))"
  shows "distinct (map event_id (room_bookings (db_of (createBooking e d q))))"
  using createBooking_db [of e d q] assms
  by (auto simp: new_booking_def)

text \<open>
  One run of a handler with no other request between its statements: from a store in
  which no two confirmed bookings of a room overlap, \<open>createBooking\<close> and (with
  distinct event ids) \<open>updateBooking\<close> leave such a store, and a request that passed
  the earlier gates is answered 409 exactly when a confirmed booking of the room (for a
  reschedule: another one) has \<open>start < new end\<close> and \<open>end > new start\<close>. This is
  what the availability queries are written for; it says nothing of two requests whose
  statements interleave.
\<close>

lemma no_overlap_one_run:
  assumes inv: "no_overlap (room_bookings d)"
  shows "no_overlap (room_bookings (db_of (createBooking e d q)))
    \<and> (distinct (map event_id (room_bookings d)) \<longrightarrow>
         no_overlap (room_bookings (db_of (updateBooking e d eid q)))
         \<and> distinct (map event_id (room_bookings (db_of (updateBooking e d eid q))))
         \<and> (randomUUID e \<notin> set (map event_id (room_bookings d)) \<longrightarrow>
              distinct (map event_id (room_bookings (db_of (createBooking e d q))))))
    \<and> (create_gates e d q \<longrightarrow>
         (http_status (response_of (createBooking e d q)) = 409) =
           list_ex (taken_by q) (room_bookings d)
         \<and> (list_ex (taken_by q) (room_bookings d) \<longrightarrow> db_of (createBooking e d q) = d)
         \<and> (\<not> list_ex (taken_by q) (room_bookings d) \<longrightarrow>
              room_bookings (db_of (createBooking e d q)) = room_bookings d @ [new_booking e q]))
    \<and> (update_gates e d eid q \<longrightarrow>
         (http_status (response_of (updateBooking e d eid q)) = 409) =
           list_ex (\<lambda>b. event_id b \<noteq> eid \<and> taken_by q b) (room_bookings d)
         \<and> (list_ex (\<lambda>b. event_id b \<noteq> eid \<and> taken_by q b) (room_bookings d) \<longrightarrow>
              db_of (updateBooking e d eid q) = d))"
proof (intro conjI impI)
  show "no_overlap (room_bookings (db_of (createBooking e d q)))"
    using inv by (rule createBooking_no_overlap)
next
  assume "distinct (map event_id (room_bookings d))"
  with inv show "no_overlap (room_bookings (db_of (updateBooking e d eid q)))"
    by (rule updateBooking_no_overlap)
next
  assume "distinct (map event_id (room_bookings d))"
  then show "distinct (map event_id (room_bookings (db_of (updateBooking e d eid q))))"
    by (simp add: updateBooking_ids)
next
  assume "distinct (map event_id (room_bookings d))"
    and "randomUUID e \<notin> set (map event_id (room_bookings d))"
  then show "distinct (map event_id (room_bookings (db_of (createBooking e d q))))"
    by (rule createBooking_ids)
next
  assume "create_gates e d q"
  then show "(http_status (response_of (createBooking e d q)) = 409) =
           list_ex (taken_by q) (room_bookings d)"
    by (rule createBooking_409)
next
  assume "create_gates e d q" "list_ex (taken_by q) (room_bookings d)"
  then show "db_of (createBooking e d q) = d"
    by (simp add: createBooking_taken db_of_def)
next
  assume "create_gates e d q" "\<not> list_ex (taken_by q) (room_bookings d)"
  then show "room_bookings (db_of (createBooking e d q)) = room_bookings d @ [new_booking e q]"
    by (simp add: createBooking_free db_of_def)
next
  assume "update_gates e d eid q"
  then show "(http_status (response_of (updateBooking e d eid q)) = 409) =
           list_ex (\<lambda>b. event_id b \<noteq> eid \<and> taken_by q b) (room_bookings d)"
    by (rule updateBooking_409)
next
  assume "update_gates e d eid q"
    "list_ex (\<lambda>b. event_id b \<noteq> eid \<and> taken_by q b) (room_bookings d)"
  then show "db_of (updateBooking e d eid q) = d"
    by (simp add: updateBooking_taken db_of_def)
qed

lemma no_overlap_one_run_example:
  "no_overlap (room_bookings demo_db)
   \<and> distinct (map event_id (room_bookings demo_db))
   \<and> randomUUID demo_env \<notin> set (map event_id (room_bookings demo_db))
   \<and> create_gates demo_env demo_db (demo_req 1 7200000 10800000 5)
   \<and> \<not> list_ex (taken_by (demo_req 1 7200000 10800000 5)) (room_bookings demo_db)
   \<and> http_status (response_of (createBooking demo_env demo_db (demo_req 1 7200000 10800000 5))) \<noteq> 409
   \<and> room_bookings (db_of (createBooking demo_env demo_db (demo_req 1 7200000 10800000 5)))
       = [demo_booking, new_booking demo_env (demo_req 1 7200000 10800000 5)]
   \<and> no_overlap (room_bookings (db_of (createBooking demo_env demo_db (demo_req 1 7200000 10800000 5))))
   \<and> distinct (map event_id
        (room_bookings (db_of (createBooking demo_env demo_db (demo_req 1 7200000 10800000 5)))))
   \<and> update_gates demo_env demo_db ''uuid-1'' (demo_req 1 5400000 9000000 5)
   \<and> no_overlap (room_bookings (db_of (updateBooking demo_env demo_db ''uuid-1'' (demo_req 1 5400000 9000000 5))))"
proof -
  have a: "no_overlap (room_bookings demo_db)" by (simp add: demo_defs)
  have b: "distinct (map event_id (room_bookings demo_db))" by (simp add: demo_defs)
  have c: "randomUUID demo_env \<notin> set (map event_id (room_bookings demo_db))"
    by (simp add: demo_defs)
  have g: "create_gates demo_env demo_db (demo_req 1 7200000 10800000 5)"
    by (simp add: create_gates_def eval_defs demo_defs)
  have f: "\<not> list_ex (taken_by (demo_req 1 7200000 10800000 5)) (room_bookings demo_db)"
    by (simp add: taken_by_def demo_defs)
  have u: "update_gates demo_env demo_db ''uuid-1'' (demo_req 1 5400000 9000000 5)"
    by (simp add: update_gates_def eval_defs demo_defs)
  have rb: "room_bookings demo_db = [demo_booking]" by (simp add: demo_db_def)
  note t1 = no_overlap_one_run [OF a, of demo_env "demo_req 1 7200000 10800000 5" "''uuid-1''"]
  note t2 = no_overlap_one_run [OF a, of demo_env "demo_req 1 5400000 9000000 5" "''uuid-1''"]
  from t1 have p1:
    "no_overlap (room_bookings (db_of (createBooking demo_env demo_db (demo_req 1 7200000 10800000 5))))"
    by blast
  from t1 b c have p2: "distinct (map event_id
        (room_bookings (db_of (createBooking demo_env demo_db (demo_req 1 7200000 10800000 5)))))"
    by blast
  from t1 g f have p3:
    "http_status (response_of (createBooking demo_env demo_db (demo_req 1 7200000 10800000 5))) \<noteq> 409"
    by blast
  from t1 g f have "room_bookings (db_of (createBooking demo_env demo_db (demo_req 1 7200000 10800000 5)))
       = room_bookings demo_db @ [new_booking demo_env (demo_req 1 7200000 10800000 5)]"
    by blast
  then have p4: "room_bookings (db_of (createBooking demo_env demo_db (demo_req 1 7200000 10800000 5)))
       = [demo_booking, new_booking demo_env (demo_req 1 7200000 10800000 5)]"
    by (simp only: rb append.simps)
  from t2 b have p5:
    "no_overlap (room_bookings (db_of (updateBooking demo_env demo_db ''uuid-1'' (demo_req 1 5400000 9000000 5))))"
    by blast
  from a b c g f p3 p4 p1 p2 u p5 show ?thesis by blast
qed

section \<open>The claims\<close>

text \<open>
  C4. The availability query of \<open>updateBooking\<close> counts the confirmed bookings of the
  target room other than the one being rescheduled (\<open>event_id != @currentEventId\<close>):
  a request that passed the earlier gates is answered 409 exactly when such another
  booking overlaps the new interval. So when the only bookings that overlap the new
  interval carry the rescheduled event id itself, there is no conflict answer and the
  row is updated.
\<close>

theorem reschedule_excludes_itself:
  assumes g: "update_gates e d eid q"
  shows "(http_status (response_of (updateBooking e d eid q)) = 409) =
           list_ex (\<lambda>b. event_id b \<noteq> eid \<and> taken_by q b) (room_bookings d)
    \<and> ((\<forall>b\<in>set (room_bookings d). taken_by q b \<longrightarrow> event_id b = eid) \<longrightarrow>
         http_status (response_of (updateBooking e d eid q)) \<noteq> 409
         \<and> room_bookings (db_of (updateBooking e d eid q)) =
             map (\<lambda>b. if event_id b = eid
                       then rescheduled e q (name_room (target_room d q)) b else b)
               (room_bookings d))"
proof (intro conjI impI)
  show "(http_status (response_of (updateBooking e d eid q)) = 409) =
           list_ex (\<lambda>b. event_id b \<noteq> eid \<and> taken_by q b) (room_bookings d)"
    using g by (rule updateBooking_409)
next
  assume own: "\<forall>b\<in>set (room_bookings d). taken_by q b \<longrightarrow> event_id b = eid"
  then have free: "\<not> list_ex (\<lambda>b. event_id b \<noteq> eid \<and> taken_by q b) (room_bookings d)"
    by (auto simp: list_ex_iff)
  with updateBooking_409 [OF g]
  show "http_status (response_of (updateBooking e d eid q)) \<noteq> 409" by simp
  from updateBooking_free [OF g free]
  show "room_bookings (db_of (updateBooking e d eid q)) =
             map (\<lambda>b. if event_id b = eid
                       then rescheduled e q (name_room (target_room d q)) b else b)
               (room_bookings d)"
    by (simp add: db_of_def)
qed

theorem reschedule_excludes_itself_witness:
  "update_gates demo_env demo_db ''uuid-1'' (demo_req 1 5400000 9000000 5)
   \<and> taken_by (demo_req 1 5400000 9000000 5) demo_booking
   \<and> room_bookings demo_db = [demo_booking]
   \<and> event_id demo_booking = ''uuid-1''
   \<and> http_status (response_of
        (updateBooking demo_env demo_db ''uuid-1'' (demo_req 1 5400000 9000000 5))) \<noteq> 409
   \<and> http_status (response_of
        (updateBooking demo_env demo_db ''uuid-1'' (demo_req 1 5400000 9000000 5))) = 200
   \<and> map start_datetime (room_bookings (db_of
        (updateBooking demo_env demo_db ''uuid-1'' (demo_req 1 5400000 9000000 5)))) = [5400000]"
proof -
  have u: "update_gates demo_env demo_db ''uuid-1'' (demo_req 1 5400000 9000000 5)"
    by (simp add: update_gates_def eval_defs demo_defs)
  have t: "taken_by (demo_req 1 5400000 9000000 5) demo_booking"
    by (simp add: taken_by_def demo_defs)
  have rb: "room_bookings demo_db = [demo_booking]" by (simp add: demo_db_def)
  have i: "event_id demo_booking = ''uuid-1''" by (simp add: demo_booking_def)
  have own: "\<forall>b\<in>set (room_bookings demo_db).
      taken_by (demo_req 1 5400000 9000000 5) b \<longrightarrow> event_id b = ''uuid-1''"
    by (simp add: rb i)
  from reschedule_excludes_itself [OF u] own have
    n: "http_status (response_of
        (updateBooking demo_env demo_db ''uuid-1'' (demo_req 1 5400000 9000000 5))) \<noteq> 409"
    by blast
  have ok: "http_status (response_of
        (updateBooking demo_env demo_db ''uuid-1'' (demo_req 1 5400000 9000000 5))) = 200"
    by (simp add: eval_defs demo_defs)
  have st: "map start_datetime (room_bookings (db_of
        (updateBooking demo_env demo_db ''uuid-1'' (demo_req 1 5400000 9000000 5)))) = [5400000]"
    by (simp add: eval_defs demo_defs)
  from u t rb i n ok st show ?thesis by blast
qed

lemma updateBooking_no_row:
  assumes "filter (\<lambda>b. event_id b = eid \<and> confirmed b) (room_bookings d) = []"
  shows "db_of (updateBooking e d eid q) = d"
    and "\<not> missing_update_fields eid q \<Longrightarrow> dbPool_set e \<Longrightarrow>
         updateBooking e d eid q =
           (reply 404 (Some False) ''Original booking not found or already cancelled.'', d,
            [Begin, Sql Transaction SELECT ''room_bookings'', Rollback])"
    and "effects_of (updateBooking e d eid q) = [] \<or>
         effects_of (updateBooking e d eid q) =
           [Begin, Sql Transaction SELECT ''room_bookings'', Rollback]"
  using assms by (simp_all add: updateBooking_def db_of_def effects_of_def Let_def)

text \<open>
  C5. When no row of \<open>room_bookings\<close> with the given event id is confirmed (there is
  none, or it is cancelled), \<open>updateBooking\<close> leaves the store as it is and issues no
  \<open>UPDATE\<close>, whatever the request; and a request that carries the required fields,
  with the pool set, is answered 404 \<open>Original booking not found or already cancelled.\<close>
  after the rollback.
\<close>

theorem reschedule_not_found:
  assumes gone: "\<forall>b\<in>set (room_bookings d). event_id b = eid \<longrightarrow> status b \<noteq> ''confirmed''"
  shows "db_of (updateBooking e d eid q) = d
    \<and> Sql Transaction UPDATE ''room_bookings'' \<notin> set (effects_of (updateBooking e d eid q))
    \<and> (\<not> missing_update_fields eid q \<and> dbPool_set e \<longrightarrow>
         response_of (updateBooking e d eid q) =
           reply 404 (Some False) ''Original booking not found or already cancelled.''
         \<and> effects_of (updateBooking e d eid q) =
             [Begin, Sql Transaction SELECT ''room_bookings'', Rollback])"
proof -
  from gone have none: "filter (\<lambda>b. event_id b = eid \<and> confirmed b) (room_bookings d) = []"
    by (auto simp: filter_empty_conv confirmed_def)
  have a: "db_of (updateBooking e d eid q) = d"
    using none by (rule updateBooking_no_row(1))
  have b: "Sql Transaction UPDATE ''room_bookings'' \<notin> set (effects_of (updateBooking e d eid q))"
    using updateBooking_no_row(3) [OF none, of e q] by auto
  have c: "response_of (updateBooking e d eid q) =
           reply 404 (Some False) ''Original booking not found or already cancelled.''
         \<and> effects_of (updateBooking e d eid q) =
             [Begin, Sql Transaction SELECT ''room_bookings'', Rollback]"
    if "\<not> missing_update_fields eid q" "dbPool_set e"
    using updateBooking_no_row(2) [OF none that] by (simp add: response_of_def effects_of_def)
  from a b c show ?thesis by blast
qed

lemma after_cancel_rows:
  "room_bookings after_cancel =
     [demo_booking\<lparr>status := ''cancelled'', cancelled_at := Some 5000, updated_at := Some 5000\<rparr>]"
  by (simp add: after_cancel_def eval_defs demo_defs)

theorem reschedule_not_found_witness:
  "map status (room_bookings after_cancel) = [''cancelled'']
   \<and> map event_id (room_bookings after_cancel) = [''uuid-1'']
   \<and> \<not> missing_update_fields ''uuid-1'' (demo_req 1 7200000 10800000 5)
   \<and> dbPool_set demo_env
   \<and> db_of (updateBooking demo_env after_cancel ''uuid-1'' (demo_req 1 7200000 10800000 5))
       = after_cancel
   \<and> http_status (response_of
       (updateBooking demo_env after_cancel ''uuid-1'' (demo_req 1 7200000 10800000 5))) = 404
   \<and> ''uuid-9'' \<notin> set (map event_id (room_bookings demo_db))
   \<and> db_of (updateBooking demo_env demo_db ''uuid-9'' (demo_req 1 7200000 10800000 5)) = demo_db
   \<and> http_status (response_of
       (updateBooking demo_env demo_db ''uuid-9'' (demo_req 1 7200000 10800000 5))) = 404"
proof -
  have s: "map status (room_bookings after_cancel) = [''cancelled'']"
    and i: "map event_id (room_bookings after_cancel) = [''uuid-1'']"
    by (simp_all add: after_cancel_rows demo_booking_def)
  have v: "\<not> missing_update_fields ''uuid-1'' (demo_req 1 7200000 10800000 5)"
    and v9: "\<not> missing_update_fields ''uuid-9'' (demo_req 1 7200000 10800000 5)"
    by (simp_all add: eval_defs demo_defs)
  have p: "dbPool_set demo_env" by (simp add: demo_defs)
  have h1: "\<forall>b\<in>set (room_bookings after_cancel). event_id b = ''uuid-1'' \<longrightarrow> status b \<noteq> ''confirmed''"
    by (simp add: after_cancel_rows)
  have n9: "''uuid-9'' \<notin> set (map event_id (room_bookings demo_db))"
    by (simp add: demo_defs)
  have h2: "\<forall>b\<in>set (room_bookings demo_db). event_id b = ''uuid-9'' \<longrightarrow> status b \<noteq> ''confirmed''"
    by (simp add: demo_defs)
  note t1 = reschedule_not_found [OF h1, of demo_env "demo_req 1 7200000 10800000 5"]
  note t2 = reschedule_not_found [OF h2, of demo_env "demo_req 1 7200000 10800000 5"]
  from t1 have a1: "db_of (updateBooking demo_env after_cancel ''uuid-1'' (demo_req 1 7200000 10800000 5))
       = after_cancel" by blast
  from t1 v p have "response_of
       (updateBooking demo_env after_cancel ''uuid-1'' (demo_req 1 7200000 10800000 5)) =
       reply 404 (Some False) ''Original booking not found or already cancelled.''" by blast
  then have b1: "http_status (response_of
       (updateBooking demo_env after_cancel ''uuid-1'' (demo_req 1 7200000 10800000 5))) = 404"
    by (simp add: reply_def)
  from t2 have a2: "db_of (updateBooking demo_env demo_db ''uuid-9'' (demo_req 1 7200000 10800000 5)) = demo_db"
    by blast
  from t2 v9 p have "response_of
       (updateBooking demo_env demo_db ''uuid-9'' (demo_req 1 7200000 10800000 5)) =
       reply 404 (Some False) ''Original booking not found or already cancelled.''" by blast
  then have b2: "http_status (response_of
       (updateBooking demo_env demo_db ''uuid-9'' (demo_req 1 7200000 10800000 5))) = 404"
    by (simp add: reply_def)
  from s i v p a1 b1 n9 a2 b2 show ?thesis by blast
qed

lemma distinct_event_id_unique:
  assumes "distinct (map event_id bs)" "a \<in> set bs" "b \<in> set bs" "event_id a = event_id b"
  shows "a = b"
  using assms by (meson distinct_map inj_on_eq_iff)

lemma cancelBooking_no_match:
  assumes "filter (\<lambda>b. event_id b = eid \<and> organizer_email b = em \<and> confirmed b)
             (room_bookings d) = []"
    and "eid \<noteq> []" "em \<noteq> []"
  shows "cancelBooking e d eid (Some em) =
     (if dbPool_set e
      then (reply 404 (Some False)
              ''Booking not found or not eligible for cancellation by this email.'', d,
            [Begin, Sql Transaction SELECT ''room_bookings'', Rollback])
      else (reply 500 None ''Database connection not available'', d, []))"
  using assms by (simp add: cancelBooking_def falsy_str_def Let_def)

text \<open>
  C6. In any store (with distinct event ids), \<open>cancelBooking\<close> with the event id of a
  confirmed booking and an address other than its organizer's gives the very response
  (status, success flag, message and every other key) that \<open>cancelBooking\<close> gives
  for an event id no row has, with any address; both leave the store unchanged. With the
  pool set the response is 404
  \<open>Booking not found or not eligible for cancellation by this email.\<close> Both requests
  carry an event id and an address, so both pass the field check.
\<close>

theorem cancel_wrong_email_like_not_found:
  assumes ids: "distinct (map event_id (room_bookings d))"
    and row: "b \<in> set (room_bookings d)" "status b = ''confirmed''"
    and wrong: "wrong \<noteq> organizer_email b"
    and absent: "other \<notin> set (map event_id (room_bookings d))"
    and given: "event_id b \<noteq> []" "other \<noteq> []" "wrong \<noteq> []" "anyone \<noteq> []"
  shows "response_of (cancelBooking e d (event_id b) (Some wrong)) =
           response_of (cancelBooking e d other (Some anyone))
    \<and> db_of (cancelBooking e d (event_id b) (Some wrong)) = d
    \<and> db_of (cancelBooking e d other (Some anyone)) = d
    \<and> (dbPool_set e \<longrightarrow>
         response_of (cancelBooking e d (event_id b) (Some wrong)) =
           reply 404 (Some False)
             ''Booking not found or not eligible for cancellation by this email.'')"
proof -
  have "c = b" if "c \<in> set (room_bookings d)" "event_id c = event_id b" for c
    using ids that(1) row(1) that(2) by (rule distinct_event_id_unique)
  with wrong have n1: "filter (\<lambda>c. event_id c = event_id b \<and> organizer_email c = wrong
      \<and> confirmed c) (room_bookings d) = []"
    by (auto simp: filter_empty_conv)
  from absent have n2: "filter (\<lambda>c. event_id c = other \<and> organizer_email c = anyone
      \<and> confirmed c) (room_bookings d) = []"
    by (auto simp: filter_empty_conv)
  note c1 = cancelBooking_no_match [OF n1 given(1) given(3), of e]
  note c2 = cancelBooking_no_match [OF n2 given(2) given(4), of e]
  from c1 c2 show ?thesis by (simp add: response_of_def db_of_def)
qed

theorem cancel_wrong_email_like_not_found_witness:
  "distinct (map event_id (room_bookings demo_db))
   \<and> demo_booking \<in> set (room_bookings demo_db)
   \<and> status demo_booking = ''confirmed''
   \<and> event_id demo_booking = ''uuid-1''
   \<and> ''bob@example.com'' \<noteq> organizer_email demo_booking
   \<and> ''uuid-9'' \<notin> set (map event_id (room_bookings demo_db))
   \<and> response_of (cancelBooking demo_env demo_db ''uuid-1'' (Some ''bob@example.com'')) =
       response_of (cancelBooking demo_env demo_db ''uuid-9'' (Some ''ann@example.com''))
   \<and> http_status (response_of
       (cancelBooking demo_env demo_db ''uuid-1'' (Some ''bob@example.com''))) = 404
   \<and> db_of (cancelBooking demo_env demo_db ''uuid-1'' (Some ''bob@example.com'')) = demo_db
   \<and> db_of (cancelBooking demo_env demo_db ''uuid-9'' (Some ''ann@example.com'')) = demo_db"
proof -
  have h1: "distinct (map event_id (room_bookings demo_db))"
    and h2: "demo_booking \<in> set (room_bookings demo_db)"
    and h3: "status demo_booking = ''confirmed''"
    and h4: "''bob@example.com'' \<noteq> organizer_email demo_booking"
    and h5: "''uuid-9'' \<notin> set (map event_id (room_bookings demo_db))"
    and h6: "event_id demo_booking \<noteq> []"
    and i: "event_id demo_booking = ''uuid-1''"
    and p: "dbPool_set demo_env"
    by (simp_all add: demo_defs)
  have h7: "''uuid-9'' \<noteq> []" "''bob@example.com'' \<noteq> []" "''ann@example.com'' \<noteq> []"
    by simp_all
  note t = cancel_wrong_email_like_not_found [OF h1 h2 h3 h4 h5 h6 h7, of demo_env]
  from t p have "response_of (cancelBooking demo_env demo_db (event_id demo_booking)
       (Some ''bob@example.com'')) =
     reply 404 (Some False) ''Booking not found or not eligible for cancellation by this email.''"
    by blast
  then have s: "http_status (response_of (cancelBooking demo_env demo_db (event_id demo_booking)
       (Some ''bob@example.com''))) = 404"
    by (simp add: reply_def)
  from t s h1 h2 h3 h4 h5 i show ?thesis by (simp only: i) blast
qed

lemma updateBooking_ignores_stored_organizer:
  "response_of (updateBooking e
      (d\<lparr>room_bookings := map (\<lambda>b. b\<lparr>organizer_email := f b\<rparr>) (room_bookings d)\<rparr>) eid q)
   = response_of (updateBooking e d eid q)"
  by (simp add: updateBooking_def response_of_def Let_def filter_map comp_def confirmed_def
      slot_taken_def list.case_eq_if split: sum.splits)

lemma rescheduled_rows_organizer:
  "\<forall>b\<in>set (map (\<lambda>b. if event_id b = eid then rescheduled e q nm b else b) bs).
          event_id b = eid \<longrightarrow> organizer_email b = the (req_organizer_email q)"
proof (intro ballI impI)
  fix x
  assume "x \<in> set (map (\<lambda>b. if event_id b = eid then rescheduled e q nm b else b) bs)"
    and i: "event_id x = eid"
  then obtain y where y: "y \<in> set bs"
    and x: "x = (if event_id y = eid then rescheduled e q nm y else y)"
    by (auto simp only: set_map image_iff)
  show "organizer_email x = the (req_organizer_email q)"
  proof (cases "event_id y = eid")
    case True
    with x show ?thesis by (simp add: rescheduled_simps)
  next
    case False
    with x i show ?thesis by simp
  qed
qed

text \<open>
  C8. \<open>updateBooking\<close> makes no check of the organizer: its response does not depend on
  the \<open>organizer_email\<close> the rows hold, so a request that passed the gates and meets no
  conflict succeeds (200 once the mail is out) whether or not its address is the stored
  one, and every row of the event id then holds the address of the request.
  \<open>cancelBooking\<close>, for the same event id, answers 404 and writes nothing when no row
  of that id holds the caller's address.
\<close>

theorem reschedule_has_no_identity_check:
  assumes g: "update_gates e d eid q"
    and free: "\<not> list_ex (\<lambda>b. event_id b \<noteq> eid \<and> taken_by q b) (room_bookings d)"
  shows "response_of (updateBooking e
            (d\<lparr>room_bookings := map (\<lambda>b. b\<lparr>organizer_email := f b\<rparr>) (room_bookings d)\<rparr>) eid q)
           = response_of (updateBooking e d eid q)
    \<and> (fst (sendEmail e (reschedule_mail q (name_room (target_room d q)))) = Inr () \<longrightarrow>
         response_of (updateBooking e d eid q) =
           reply 200 (Some True) ''Booking updated successfully!'')
    \<and> room_bookings (db_of (updateBooking e d eid q)) =
         map (\<lambda>b. if event_id b = eid
                   then rescheduled e q (name_room (target_room d q)) b else b)
           (room_bookings d)
    \<and> (\<forall>b\<in>set (room_bookings (db_of (updateBooking e d eid q))).
          event_id b = eid \<longrightarrow> organizer_email b = the (req_organizer_email q))
    \<and> (\<forall>em. em \<noteq> [] \<and>
          (\<forall>b\<in>set (room_bookings d). event_id b = eid \<longrightarrow> organizer_email b \<noteq> em) \<longrightarrow>
          response_of (cancelBooking e d eid (Some em)) =
            reply 404 (Some False)
              ''Booking not found or not eligible for cancellation by this email.''
          \<and> db_of (cancelBooking e d eid (Some em)) = d)"
proof (intro conjI allI impI)
  note u = updateBooking_free [OF g free]
  show "response_of (updateBooking e
            (d\<lparr>room_bookings := map (\<lambda>b. b\<lparr>organizer_email := f b\<rparr>) (room_bookings d)\<rparr>) eid q)
           = response_of (updateBooking e d eid q)"
    by (rule updateBooking_ignores_stored_organizer)
  show "response_of (updateBooking e d eid q) =
           reply 200 (Some True) ''Booking updated successfully!''"
    if "fst (sendEmail e (reschedule_mail q (name_room (target_room d q)))) = Inr ()"
    using u that by (simp add: response_of_def)
  show b: "room_bookings (db_of (updateBooking e d eid q)) =
         map (\<lambda>b. if event_id b = eid
                   then rescheduled e q (name_room (target_room d q)) b else b)
           (room_bookings d)"
    using u by (simp add: db_of_def)
  show "\<forall>b\<in>set (room_bookings (db_of (updateBooking e d eid q))).
          event_id b = eid \<longrightarrow> organizer_email b = the (req_organizer_email q)"
    unfolding b by (rule rescheduled_rows_organizer)
  from g have v: "eid \<noteq> []" "dbPool_set e"
    by (simp_all add: update_gates_def missing_update_fields_def)
  fix em
  assume h: "em \<noteq> [] \<and>
          (\<forall>b\<in>set (room_bookings d). event_id b = eid \<longrightarrow> organizer_email b \<noteq> em)"
  then have n: "filter (\<lambda>b. event_id b = eid \<and> organizer_email b = em \<and> confirmed b)
             (room_bookings d) = []"
    by (auto simp: filter_empty_conv)
  from h have ne: "em \<noteq> []" by simp
  from cancelBooking_no_match [OF n v(1) ne, of e] v(2)
  have c: "cancelBooking e d eid (Some em) =
     (reply 404 (Some False)
              ''Booking not found or not eligible for cancellation by this email.'', d,
            [Begin, Sql Transaction SELECT ''room_bookings'', Rollback])"
    by simp
  from c show "response_of (cancelBooking e d eid (Some em)) =
            reply 404 (Some False)
              ''Booking not found or not eligible for cancellation by this email.''"
    by (simp add: response_of_def)
  from c show "db_of (cancelBooking e d eid (Some em)) = d"
    by (simp add: db_of_def)
qed

theorem reschedule_has_no_identity_check_witness:
  "update_gates demo_env demo_db ''uuid-1'' (demo_req 1 7200000 10800000 5)
   \<and> map organizer_email (room_bookings demo_db) = [''ann@example.com'']
   \<and> req_organizer_email (demo_req 1 7200000 10800000 5) = Some ''bob@example.com''
   \<and> response_of (updateBooking demo_env demo_db ''uuid-1'' (demo_req 1 7200000 10800000 5))
       = reply 200 (Some True) ''Booking updated successfully!''
   \<and> map organizer_email (room_bookings
        (db_of (updateBooking demo_env demo_db ''uuid-1'' (demo_req 1 7200000 10800000 5))))
       = [''bob@example.com'']
   \<and> response_of (cancelBooking demo_env demo_db ''uuid-1'' (Some ''bob@example.com'')) =
        reply 404 (Some False) ''Booking not found or not eligible for cancellation by this email.''
   \<and> db_of (cancelBooking demo_env demo_db ''uuid-1'' (Some ''bob@example.com'')) = demo_db"
proof -
  have u: "update_gates demo_env demo_db ''uuid-1'' (demo_req 1 7200000 10800000 5)"
    by (simp add: update_gates_def eval_defs demo_defs)
  have fr: "\<not> list_ex (\<lambda>b. event_id b \<noteq> ''uuid-1'' \<and> taken_by (demo_req 1 7200000 10800000 5) b)
      (room_bookings demo_db)"
    by (simp add: demo_defs)
  have o: "map organizer_email (room_bookings demo_db) = [''ann@example.com'']"
    and r: "req_organizer_email (demo_req 1 7200000 10800000 5) = Some ''bob@example.com''"
    by (simp_all add: demo_defs)
  have m: "fst (sendEmail demo_env (reschedule_mail (demo_req 1 7200000 10800000 5)
      (name_room (target_room demo_db (demo_req 1 7200000 10800000 5))))) = Inr ()"
    by (simp add: sendEmail_def demo_defs)
  have w: "''bob@example.com'' \<noteq> [] \<and> (\<forall>b\<in>set (room_bookings demo_db).
      event_id b = ''uuid-1'' \<longrightarrow> organizer_email b \<noteq> ''bob@example.com'')"
    by (simp add: demo_defs)
  note t = reschedule_has_no_identity_check [OF u fr, of organizer_email]
  from t m have p1: "response_of (updateBooking demo_env demo_db ''uuid-1'' (demo_req 1 7200000 10800000 5))
       = reply 200 (Some True) ''Booking updated successfully!''" by blast
  from t have "room_bookings (db_of (updateBooking demo_env demo_db ''uuid-1''
      (demo_req 1 7200000 10800000 5))) =
      map (\<lambda>b. if event_id b = ''uuid-1''
                then rescheduled demo_env (demo_req 1 7200000 10800000 5)
                  (name_room (target_room demo_db (demo_req 1 7200000 10800000 5))) b else b)
        (room_bookings demo_db)" by blast
  then have p2: "map organizer_email (room_bookings
        (db_of (updateBooking demo_env demo_db ''uuid-1'' (demo_req 1 7200000 10800000 5))))
       = [''bob@example.com'']"
    by (simp add: rescheduled_def demo_defs)
  from t w have p3: "response_of (cancelBooking demo_env demo_db ''uuid-1'' (Some ''bob@example.com'')) =
        reply 404 (Some False) ''Booking not found or not eligible for cancellation by this email.''
      \<and> db_of (cancelBooking demo_env demo_db ''uuid-1'' (Some ''bob@example.com'')) = demo_db"
    by blast
  from u o r p1 p2 p3 show ?thesis by blast
qed

lemma sendEmail_effects:
  "snd (sendEmail e m) = [] \<or> snd (sendEmail e m) = [SendMail m]"
  by (simp add: sendEmail_def split: option.splits)

lemma createBooking_effects:
  "(db_of (createBooking e d q) = d \<and>
      effects_of (createBooking e d q) \<in>
        {[], [Sql Pool SELECT ''rooms''], [Sql Pool SELECT ''rooms'', Sql Pool SELECT ''room_bookings'']})
   \<or> (db_of (createBooking e d q) = d\<lparr>room_bookings := room_bookings d @ [new_booking e q]\<rparr> \<and>
      effects_of (createBooking e d q) =
        [Sql Pool SELECT ''rooms'', Sql Pool SELECT ''room_bookings'',
         Sql Pool INSERT ''room_bookings''] @ snd (sendEmail e (confirmation_mail q)))"
  by (simp add: createBooking_def db_of_def effects_of_def Let_def split: list.splits sum.splits)

text \<open>
  C7. In \<open>createBooking\<close> the \<open>INSERT\<close> of the row comes before the mail: wherever
  the handler's effects hold a mail, the \<open>INSERT\<close> stands before it, nothing follows
  it, and the store holds the new row. When the Graph call fails after the insert, the
  caller gets 500 with \<open>Failed to send email notification.\<close>, and the store still
  holds the row: nothing is undone.
\<close>

theorem persist_before_notify:
  "(\<forall>pre m post. effects_of (createBooking e d q) = pre @ SendMail m # post \<longrightarrow>
       Sql Pool INSERT ''room_bookings'' \<in> set pre \<and> post = []
       \<and> db_of (createBooking e d q) = d\<lparr>room_bookings := room_bookings d @ [new_booking e q]\<rparr>)
   \<and> (create_gates e d q \<and> \<not> list_ex (taken_by q) (room_bookings d)
        \<and> graph_configured e \<and> graph_error e (confirmation_mail q) \<noteq> None \<longrightarrow>
       effects_of (createBooking e d q) =
         [Sql Pool SELECT ''rooms'', Sql Pool SELECT ''room_bookings'',
          Sql Pool INSERT ''room_bookings'', SendMail (confirmation_mail q)]
       \<and> db_of (createBooking e d q) = d\<lparr>room_bookings := room_bookings d @ [new_booking e q]\<rparr>
       \<and> http_status (response_of (createBooking e d q)) = 500
       \<and> message (response_of (createBooking e d q)) = ''Failed to send email notification.'')"
proof (intro conjI allI impI)
  fix pre m post
  assume eq: "effects_of (createBooking e d q) = pre @ SendMail m # post"
  from createBooking_effects [of e d q]
  have ins: "db_of (createBooking e d q) = d\<lparr>room_bookings := room_bookings d @ [new_booking e q]\<rparr>"
    and fx: "effects_of (createBooking e d q) =
        [Sql Pool SELECT ''rooms'', Sql Pool SELECT ''room_bookings'',
         Sql Pool INSERT ''room_bookings''] @ snd (sendEmail e (confirmation_mail q))"
    using eq by (auto simp: append_eq_Cons_conv Cons_eq_append_conv)
  from ins show "db_of (createBooking e d q) =
      d\<lparr>room_bookings := room_bookings d @ [new_booking e q]\<rparr>" .
  from sendEmail_effects [of e "confirmation_mail q"] fx eq
  have "pre = [Sql Pool SELECT ''rooms'', Sql Pool SELECT ''room_bookings'',
         Sql Pool INSERT ''room_bookings''] \<and> post = []"
    by (auto simp: append_eq_Cons_conv Cons_eq_append_conv)
  then show "Sql Pool INSERT ''room_bookings'' \<in> set pre" and "post = []" by simp_all
next
  assume h: "create_gates e d q \<and> \<not> list_ex (taken_by q) (room_bookings d)
        \<and> graph_configured e \<and> graph_error e (confirmation_mail q) \<noteq> None"
  then obtain err where s: "sendEmail e (confirmation_mail q) =
      (Inl ''Failed to send email notification.'', [SendMail (confirmation_mail q)])"
    by (auto simp: sendEmail_def)
  from h have c: "createBooking e d q =
     (case fst (sendEmail e (confirmation_mail q)) of
        Inl msg \<Rightarrow> caught e msg ''Failed to create booking.''
      | Inr _ \<Rightarrow> (reply 201 (Some True) ''Booking created and confirmed successfully!'')
                   \<lparr>event_id_sent := Some (randomUUID e)\<rparr>,
      d\<lparr>room_bookings := room_bookings d @ [new_booking e q]\<rparr>,
      [Sql Pool SELECT ''rooms'', Sql Pool SELECT ''room_bookings'',
       Sql Pool INSERT ''room_bookings''] @ snd (sendEmail e (confirmation_mail q)))"
    by (simp add: createBooking_free)
  show "effects_of (createBooking e d q) =
         [Sql Pool SELECT ''rooms'', Sql Pool SELECT ''room_bookings'',
          Sql Pool INSERT ''room_bookings'', SendMail (confirmation_mail q)]"
    by (simp add: c s effects_of_def)
  show "db_of (createBooking e d q) = d\<lparr>room_bookings := room_bookings d @ [new_booking e q]\<rparr>"
    by (simp add: c db_of_def)
  show "http_status (response_of (createBooking e d q)) = 500"
    by (simp add: c s response_of_def caught_def reply_def)
  show "message (response_of (createBooking e d q)) = ''Failed to send email notification.''"
    by (simp add: c s response_of_def caught_def reply_def)
qed

theorem persist_before_notify_witness:
  "create_gates mail_down demo_db (demo_req 1 7200000 10800000 5)
   \<and> \<not> list_ex (taken_by (demo_req 1 7200000 10800000 5)) (room_bookings demo_db)
   \<and> graph_configured mail_down
   \<and> graph_error mail_down (confirmation_mail (demo_req 1 7200000 10800000 5)) = Some ''ETIMEDOUT''
   \<and> effects_of (createBooking mail_down demo_db (demo_req 1 7200000 10800000 5)) =
         [Sql Pool SELECT ''rooms'', Sql Pool SELECT ''room_bookings'',
          Sql Pool INSERT ''room_bookings'',
          SendMail (confirmation_mail (demo_req 1 7200000 10800000 5))]
   \<and> http_status (response_of (createBooking mail_down demo_db (demo_req 1 7200000 10800000 5))) = 500
   \<and> message (response_of (createBooking mail_down demo_db (demo_req 1 7200000 10800000 5)))
        = ''Failed to send email notification.''
   \<and> room_bookings (db_of (createBooking mail_down demo_db (demo_req 1 7200000 10800000 5)))
        = [demo_booking, new_booking mail_down (demo_req 1 7200000 10800000 5)]"
proof -
  have g: "create_gates mail_down demo_db (demo_req 1 7200000 10800000 5)"
    by (simp add: create_gates_def eval_defs demo_defs)
  have f: "\<not> list_ex (taken_by (demo_req 1 7200000 10800000 5)) (room_bookings demo_db)"
    by (simp add: taken_by_def demo_defs)
  have c: "graph_configured mail_down" by (simp add: demo_defs)
  have m: "graph_error mail_down (confirmation_mail (demo_req 1 7200000 10800000 5)) = Some ''ETIMEDOUT''"
    by (simp add: demo_defs)
  then have m': "graph_error mail_down (confirmation_mail (demo_req 1 7200000 10800000 5)) \<noteq> None"
    by simp
  note t = persist_before_notify [of mail_down demo_db "demo_req 1 7200000 10800000 5"]
  from t g f c m' have
    p1: "effects_of (createBooking mail_down demo_db (demo_req 1 7200000 10800000 5)) =
         [Sql Pool SELECT ''rooms'', Sql Pool SELECT ''room_bookings'',
          Sql Pool INSERT ''room_bookings'',
          SendMail (confirmation_mail (demo_req 1 7200000 10800000 5))]"
    and p2: "http_status (response_of (createBooking mail_down demo_db (demo_req 1 7200000 10800000 5))) = 500"
    and p3: "message (response_of (createBooking mail_down demo_db (demo_req 1 7200000 10800000 5)))
        = ''Failed to send email notification.''"
    and p4: "db_of (createBooking mail_down demo_db (demo_req 1 7200000 10800000 5)) =
        demo_db\<lparr>room_bookings := room_bookings demo_db @
          [new_booking mail_down (demo_req 1 7200000 10800000 5)]\<rparr>"
    by blast+
  from p4 have p5: "room_bookings (db_of (createBooking mail_down demo_db (demo_req 1 7200000 10800000 5)))
        = [demo_booking, new_booking mail_down (demo_req 1 7200000 10800000 5)]"
    by (simp add: demo_db_def)
  from g f c m p1 p2 p3 p5 show ?thesis by blast
qed

lemma digit_char_digit: "digit_char d \<in> set ''0123456789''"
proof -
  have "d mod 10 < length ''0123456789''" by simp
  then show ?thesis unfolding digit_char_def by (rule nth_mem)
qed

lemma all_digits_digits10: "all_digits (digits10 n)"
proof (induction n rule: digits10.induct)
  case (1 n)
  show ?case
  proof (cases "n < 10")
    case True
    then have "digits10 n = [digit_char n]" by (simp add: digits10.simps)
    then show ?thesis using digit_char_digit [of n] by (simp add: all_digits_def)
  next
    case False
    then have "digits10 n = digits10 (n div 10) @ [digit_char (n mod 10)]"
      by (simp add: digits10.simps)
    moreover from False 1 have "all_digits (digits10 (n div 10))" by simp
    ultimately show ?thesis
      using digit_char_digit [of "n mod 10"] by (simp add: all_digits_def)
  qed
qed

lemma length_digits10:
  "10 ^ k \<le> n \<Longrightarrow> n < 10 ^ Suc k \<Longrightarrow> length (digits10 n) = Suc k"
proof (induction k arbitrary: n)
  case 0
  then show ?case by (simp add: digits10.simps)
next
  case (Suc k)
  from Suc.prems have big: "\<not> n < 10"
  proof -
    have "(10::nat) \<le> 10 ^ Suc k" by simp
    with Suc.prems(1) show ?thesis by linarith
  qed
  from Suc.prems have lo: "10 ^ k \<le> n div 10" by (simp add: less_eq_div_iff_mult_less_eq)
  from Suc.prems have hi: "n div 10 < 10 ^ Suc k" by (simp add: div_less_iff_less_mult)
  from big have "digits10 n = digits10 (n div 10) @ [digit_char (n mod 10)]"
    by (simp add: digits10.simps)
  with Suc.IH [OF lo hi] show ?case by simp
qed

lemma randomInt_range:
  assumes "lo < hi"
  shows "lo \<le> randomInt e lo hi \<and> randomInt e lo hi < hi"
proof -
  from assms have "0 < nat (hi - lo)" by simp
  then have "random_bits e mod nat (hi - lo) < nat (hi - lo)" by (rule mod_less_divisor)
  then have "int (random_bits e mod nat (hi - lo)) < hi - lo" by linarith
  then show ?thesis by (simp add: randomInt_def)
qed

lemma otp_six_digits:
  "length (otp (issued e em)) = 6 \<and> all_digits (otp (issued e em))"
proof -
  let ?r = "randomInt e 100000 999999"
  from randomInt_range [of 100000 999999 e] have r: "100000 \<le> ?r" "?r < 999999" by simp_all
  then have s: "otp (issued e em) = digits10 (nat ?r)" by (simp add: issued_def toString_def)
  from r have "10 ^ 5 \<le> nat ?r" "nat ?r < 10 ^ Suc 5" by simp_all
  then have "length (digits10 (nat ?r)) = Suc 5" by (rule length_digits10)
  with s show ?thesis by (simp add: all_digits_digits10)
qed

lemma sendOtp_store:
  assumes "em \<noteq> []" "dbPool_set e"
  shows "db_of (sendOtp e d (Some em)) = d\<lparr>otp_storage := merge_otp (issued e em) (otp_storage d)\<rparr>"
  using assms by (simp add: sendOtp_def db_of_def falsy_str_def Let_def split: sum.splits)

lemma issued_simps:
  "email (issued e em) = em"
  "expires_at (issued e em) = clock e 0 + 300000"
  "created_at_otp (issued e em) = clock e 1"
  "is_verified (issued e em) = False"
  by (simp_all add: issued_def)

lemma merge_otp_emails:
  "list_ex (\<lambda>r. email r = email n) rows \<Longrightarrow> map email (merge_otp n rows) = map email rows"
  by (simp add: merge_otp_def)

lemma merge_otp_distinct:
  assumes "distinct (map email rows)"
  shows "distinct (map email (merge_otp n rows))"
proof (cases "list_ex (\<lambda>r. email r = email n) rows")
  case True
  with assms show ?thesis by (simp add: merge_otp_emails)
next
  case False
  with assms show ?thesis by (auto simp: merge_otp_def list_ex_iff)
qed

lemma ball_map_if:
  assumes "\<And>y. y \<in> set xs \<Longrightarrow> c y \<Longrightarrow> Q (f y)"
    and "\<And>y. y \<in> set xs \<Longrightarrow> \<not> c y \<Longrightarrow> Q y"
  shows "\<forall>x\<in>set (map (\<lambda>y. if c y then f y else y) xs). Q x"
  using assms by (induction xs) simp_all

lemma merge_otp_rows:
  "\<forall>r\<in>set (merge_otp (issued e em) rows). email r = em \<longrightarrow>
      otp r = otp (issued e em) \<and> expires_at r = clock e 0 + 300000
      \<and> created_at_otp r = clock e 1 \<and> \<not> is_verified r"
proof (cases "list_ex (\<lambda>r. email r = em) rows")
  case True
  then have eq: "merge_otp (issued e em) rows =
      map (\<lambda>r. if email r = em
                then r\<lparr>otp := otp (issued e em), expires_at := clock e 0 + 300000,
                       created_at_otp := clock e 1, is_verified := False\<rparr>
                else r) rows"
    by (simp add: merge_otp_def issued_simps)
  show ?thesis
    unfolding eq
    by (rule ball_map_if [where c = "\<lambda>r. email r = em"
          and f = "\<lambda>r. r\<lparr>otp := otp (issued e em), expires_at := clock e 0 + 300000,
                       created_at_otp := clock e 1, is_verified := False\<rparr>"]) simp_all
next
  case False
  then show ?thesis by (auto simp: merge_otp_def issued_simps list_ex_iff)
qed

lemma merge_otp_has_row: "list_ex (\<lambda>r. email r = email n) (merge_otp n rows)"
proof (cases "list_ex (\<lambda>r. email r = email n) rows")
  case True
  then have "map email (merge_otp n rows) = map email rows" by (rule merge_otp_emails)
  then have "set (map email (merge_otp n rows)) = set (map email rows)" by simp
  moreover have "email n \<in> set (map email rows)"
  proof -
    from True obtain r where r: "r \<in> set rows" "email r = email n"
      by (auto simp: list_ex_iff)
    from r(1) have "email r \<in> email ` set rows" by (rule imageI)
    with r(2) show ?thesis by (simp only: set_map)
  qed
  ultimately have "email n \<in> set (map email (merge_otp n rows))" by simp
  then show ?thesis by (auto simp: list_ex_iff)
next
  case False
  then show ?thesis by (simp add: merge_otp_def)
qed

lemma merge_otp_others:
  "filter (\<lambda>r. email r \<noteq> email n) (merge_otp n rows) = filter (\<lambda>r. email r \<noteq> email n) rows"
proof (cases "list_ex (\<lambda>r. email r = email n) rows")
  case True
  have "filter (\<lambda>r. email r \<noteq> email n)
          (map (\<lambda>r. if email r = email n
                    then r\<lparr>otp := otp n, expires_at := expires_at n,
                           created_at_otp := created_at_otp n, is_verified := False\<rparr>
                    else r) xs) = filter (\<lambda>r. email r \<noteq> email n) xs" for xs
    by (induction xs) auto
  with True show ?thesis by (simp add: merge_otp_def)
next
  case False
  then show ?thesis by (simp add: merge_otp_def)
qed

text \<open>
  C9. For a request that carries an address, with the pool set, \<open>sendOtp\<close> issues a
  code of exactly six decimal digits and an expiry exactly \<open>5 * 60 * 1000\<close> ms after
  the reading of \<open>Date.now()\<close>, whatever \<open>crypto.randomInt\<close> draws. If the table
  holds a record of the address, it is overwritten in place (code, expiry, creation
  time) and its verified flag is reset; otherwise one record is appended, not verified.
  Either way every record of the address then holds the new code, some record does, the
  records of other addresses are as before, and a table with one record per address
  stays so. The record is written before the mail, so this does not depend on the mail.
\<close>

theorem sendOtp_stores_code:
  assumes em: "em \<noteq> []" and pool: "dbPool_set e"
  shows "length (otp (issued e em)) = 6 \<and> all_digits (otp (issued e em))
    \<and> (list_ex (\<lambda>r. email r = em) (otp_storage d) \<longrightarrow>
         otp_storage (db_of (sendOtp e d (Some em))) =
           map (\<lambda>r. if email r = em
                     then r\<lparr>otp := otp (issued e em), expires_at := clock e 0 + 300000,
                            created_at_otp := clock e 1, is_verified := False\<rparr>
                     else r) (otp_storage d))
    \<and> (\<not> list_ex (\<lambda>r. email r = em) (otp_storage d) \<longrightarrow>
         otp_storage (db_of (sendOtp e d (Some em))) =
           otp_storage d @
             [\<lparr>email = em, otp = otp (issued e em), expires_at = clock e 0 + 300000,
               created_at_otp = clock e 1, is_verified = False\<rparr>])
    \<and> (\<forall>r\<in>set (otp_storage (db_of (sendOtp e d (Some em)))). email r = em \<longrightarrow>
          otp r = otp (issued e em) \<and> expires_at r = clock e 0 + 300000
          \<and> created_at_otp r = clock e 1 \<and> \<not> is_verified r)
    \<and> list_ex (\<lambda>r. email r = em) (otp_storage (db_of (sendOtp e d (Some em))))
    \<and> filter (\<lambda>r. email r \<noteq> em) (otp_storage (db_of (sendOtp e d (Some em))))
        = filter (\<lambda>r. email r \<noteq> em) (otp_storage d)
    \<and> (distinct (map email (otp_storage d)) \<longrightarrow>
         distinct (map email (otp_storage (db_of (sendOtp e d (Some em))))))
    \<and> rooms (db_of (sendOtp e d (Some em))) = rooms d
    \<and> room_bookings (db_of (sendOtp e d (Some em))) = room_bookings d"
proof (intro conjI impI)
  have st: "otp_storage (db_of (sendOtp e d (Some em))) = merge_otp (issued e em) (otp_storage d)"
    by (simp add: sendOtp_store [OF em pool])
  show "length (otp (issued e em)) = 6" and "all_digits (otp (issued e em))"
    using otp_six_digits [of e em] by simp_all
  show "rooms (db_of (sendOtp e d (Some em))) = rooms d"
    and "room_bookings (db_of (sendOtp e d (Some em))) = room_bookings d"
    by (simp_all add: sendOtp_store [OF em pool])
  show "otp_storage (db_of (sendOtp e d (Some em))) =
           map (\<lambda>r. if email r = em
                     then r\<lparr>otp := otp (issued e em), expires_at := clock e 0 + 300000,
                            created_at_otp := clock e 1, is_verified := False\<rparr>
                     else r) (otp_storage d)"
    if "list_ex (\<lambda>r. email r = em) (otp_storage d)"
    using that by (simp add: st merge_otp_def issued_simps)
  show "otp_storage (db_of (sendOtp e d (Some em))) =
           otp_storage d @
             [\<lparr>email = em, otp = otp (issued e em), expires_at = clock e 0 + 300000,
               created_at_otp = clock e 1, is_verified = False\<rparr>]"
    if "\<not> list_ex (\<lambda>r. email r = em) (otp_storage d)"
    using that by (simp add: st merge_otp_def issued_simps issued_def)
  show "\<forall>r\<in>set (otp_storage (db_of (sendOtp e d (Some em)))). email r = em \<longrightarrow>
          otp r = otp (issued e em) \<and> expires_at r = clock e 0 + 300000
          \<and> created_at_otp r = clock e 1 \<and> \<not> is_verified r"
    unfolding st by (rule merge_otp_rows)
  show "list_ex (\<lambda>r. email r = em) (otp_storage (db_of (sendOtp e d (Some em))))"
    unfolding st using merge_otp_has_row [of "issued e em" "otp_storage d"]
    by (simp add: issued_simps)
  show "filter (\<lambda>r. email r \<noteq> em) (otp_storage (db_of (sendOtp e d (Some em))))
        = filter (\<lambda>r. email r \<noteq> em) (otp_storage d)"
    unfolding st using merge_otp_others [of "issued e em" "otp_storage d"]
    by (simp add: issued_simps)
  show "distinct (map email (otp_storage (db_of (sendOtp e d (Some em)))))"
    if "distinct (map email (otp_storage d))"
    unfolding st using that by (rule merge_otp_distinct)
qed

theorem sendOtp_stores_code_witness:
  "''a@b.com'' \<noteq> [] \<and> dbPool_set demo_env
   \<and> list_ex (\<lambda>r. email r = ''a@b.com'') (otp_storage otp_db)
   \<and> otp (issued demo_env ''a@b.com'') = ''223456''
   \<and> length (otp (issued demo_env ''a@b.com'')) = 6
   \<and> otp_storage (db_of (sendOtp demo_env otp_db (Some ''a@b.com''))) =
       [\<lparr>email = ''a@b.com'', otp = ''223456'', expires_at = 305000, created_at_otp = 5001,
         is_verified = False\<rparr>,
        \<lparr>email = ''c@d.com'', otp = ''654321'', expires_at = 999999, created_at_otp = 4000,
         is_verified = False\<rparr>]
   \<and> \<not> list_ex (\<lambda>r. email r = ''a@b.com'') (otp_storage demo_db)
   \<and> otp_storage (db_of (sendOtp demo_env demo_db (Some ''a@b.com''))) =
       [\<lparr>email = ''a@b.com'', otp = ''223456'', expires_at = 305000, created_at_otp = 5001,
         is_verified = False\<rparr>]"
proof -
  have em: "''a@b.com'' \<noteq> []" by simp
  have pool: "dbPool_set demo_env" by (simp add: demo_defs)
  have ex: "list_ex (\<lambda>r. email r = ''a@b.com'') (otp_storage otp_db)"
    by (simp add: otp_db_def)
  have nex: "\<not> list_ex (\<lambda>r. email r = ''a@b.com'') (otp_storage demo_db)"
    by (simp add: demo_defs)
  have code: "otp (issued demo_env ''a@b.com'') = ''223456''"
    by (simp add: issued_def randomInt_def toString_def demo_defs digits10.simps digit_char_def)
  have clk: "clock demo_env 0 + 300000 = 305000" "clock demo_env 1 = 5001"
    "clock demo_env (Suc 0) = 5001"
    by (simp_all add: demo_defs)
  note t1 = sendOtp_stores_code [OF em pool, of otp_db]
  note t2 = sendOtp_stores_code [OF em pool, of demo_db]
  from t1 have len: "length (otp (issued demo_env ''a@b.com'')) = 6" by blast
  from t1 ex have "otp_storage (db_of (sendOtp demo_env otp_db (Some ''a@b.com''))) =
           map (\<lambda>r. if email r = ''a@b.com''
                     then r\<lparr>otp := otp (issued demo_env ''a@b.com''),
                            expires_at := clock demo_env 0 + 300000,
                            created_at_otp := clock demo_env 1, is_verified := False\<rparr>
                     else r) (otp_storage otp_db)"
    by blast
  then have p1: "otp_storage (db_of (sendOtp demo_env otp_db (Some ''a@b.com''))) =
       [\<lparr>email = ''a@b.com'', otp = ''223456'', expires_at = 305000, created_at_otp = 5001,
         is_verified = False\<rparr>,
        \<lparr>email = ''c@d.com'', otp = ''654321'', expires_at = 999999, created_at_otp = 4000,
         is_verified = False\<rparr>]"
    by (simp add: code clk otp_db_def)
  from t2 nex have "otp_storage (db_of (sendOtp demo_env demo_db (Some ''a@b.com''))) =
           otp_storage demo_db @
             [\<lparr>email = ''a@b.com'', otp = otp (issued demo_env ''a@b.com''),
               expires_at = clock demo_env 0 + 300000,
               created_at_otp = clock demo_env 1, is_verified = False\<rparr>]"
    by blast
  then have p2: "otp_storage (db_of (sendOtp demo_env demo_db (Some ''a@b.com''))) =
       [\<lparr>email = ''a@b.com'', otp = ''223456'', expires_at = 305000, created_at_otp = 5001,
         is_verified = False\<rparr>]"
    by (simp add: code clk demo_db_def)
  from em pool ex code len p1 nex p2 show ?thesis by blast
qed

lemma cleanup_outcome:
  assumes "dbPool_set e"
  shows "cleanupExpiredOtps e d =
    ((reply 200 (Some True)
        (''Cleaned up ''
           @ toString (int (length (filter (\<lambda>r. expires_at r < clock e 0) (otp_storage d))))
           @ '' expired OTP records.''))
       \<lparr>deletedCount := Some (length (filter (\<lambda>r. expires_at r < clock e 0) (otp_storage d)))\<rparr>,
     d\<lparr>otp_storage := filter (\<lambda>r. \<not> expires_at r < clock e 0) (otp_storage d)\<rparr>,
     [Sql Pool DELETE ''otp_storage''])"
  using assms by (simp add: cleanupExpiredOtps_def Let_def)

text \<open>
  C10. With the pool set, \<open>cleanupExpiredOtps\<close> at time \<open>now\<close> keeps exactly the
  records of \<open>otp_storage\<close> that do not have \<open>expires_at < now\<close>, as they are and in
  their order, and deletes the others; \<open>deletedCount\<close> is the number of records it
  deleted, and the other tables are as before. A second call, at a time by which none
  of the records that were kept has expired, reports 0 and changes nothing.
\<close>

theorem cleanup_deletes_exactly_expired:
  assumes pool: "dbPool_set e"
  shows "otp_storage (db_of (cleanupExpiredOtps e d)) =
           filter (\<lambda>r. \<not> expires_at r < clock e 0) (otp_storage d)
    \<and> deletedCount (response_of (cleanupExpiredOtps e d)) =
         Some (length (filter (\<lambda>r. expires_at r < clock e 0) (otp_storage d)))
    \<and> length (otp_storage d) =
         length (otp_storage (db_of (cleanupExpiredOtps e d)))
         + length (filter (\<lambda>r. expires_at r < clock e 0) (otp_storage d))
    \<and> rooms (db_of (cleanupExpiredOtps e d)) = rooms d
    \<and> room_bookings (db_of (cleanupExpiredOtps e d)) = room_bookings d
    \<and> (dbPool_set e2 \<and>
        (\<forall>r\<in>set (otp_storage d). \<not> expires_at r < clock e 0 \<longrightarrow> \<not> expires_at r < clock e2 0)
        \<longrightarrow> deletedCount (response_of
               (cleanupExpiredOtps e2 (db_of (cleanupExpiredOtps e d)))) = Some 0
          \<and> db_of (cleanupExpiredOtps e2 (db_of (cleanupExpiredOtps e d))) =
               db_of (cleanupExpiredOtps e d))"
proof (intro conjI impI)
  note c = cleanup_outcome [OF pool, of d]
  show st: "otp_storage (db_of (cleanupExpiredOtps e d)) =
           filter (\<lambda>r. \<not> expires_at r < clock e 0) (otp_storage d)"
    using c by (simp add: db_of_def)
  show "deletedCount (response_of (cleanupExpiredOtps e d)) =
         Some (length (filter (\<lambda>r. expires_at r < clock e 0) (otp_storage d)))"
    using c by (simp add: response_of_def)
  show "length (otp_storage d) =
         length (otp_storage (db_of (cleanupExpiredOtps e d)))
         + length (filter (\<lambda>r. expires_at r < clock e 0) (otp_storage d))"
    unfolding st
    using sum_length_filter_compl [of "\<lambda>r. expires_at r < clock e 0" "otp_storage d"]
    by simp
  show "rooms (db_of (cleanupExpiredOtps e d)) = rooms d"
    and "room_bookings (db_of (cleanupExpiredOtps e d)) = room_bookings d"
    using c by (simp_all add: db_of_def)
  assume h: "dbPool_set e2 \<and>
        (\<forall>r\<in>set (otp_storage d). \<not> expires_at r < clock e 0 \<longrightarrow> \<not> expires_at r < clock e2 0)"
  then have p2: "dbPool_set e2" by simp
  note c2 = cleanup_outcome [OF p2, of "db_of (cleanupExpiredOtps e d)"]
  from h have none: "filter (\<lambda>r. expires_at r < clock e2 0)
      (filter (\<lambda>r. \<not> expires_at r < clock e 0) (otp_storage d)) = []"
    by (auto simp: filter_empty_conv)
  from h have "\<forall>r\<in>set (filter (\<lambda>r. \<not> expires_at r < clock e 0) (otp_storage d)).
      \<not> expires_at r < clock e2 0"
    by simp
  then have all: "filter (\<lambda>r. \<not> expires_at r < clock e2 0)
      (filter (\<lambda>r. \<not> expires_at r < clock e 0) (otp_storage d))
      = filter (\<lambda>r. \<not> expires_at r < clock e 0) (otp_storage d)"
    by (rule filter_True)
  have "deletedCount (response_of (cleanupExpiredOtps e2 (db_of (cleanupExpiredOtps e d)))) =
      Some (length (filter (\<lambda>r. expires_at r < clock e2 0)
        (otp_storage (db_of (cleanupExpiredOtps e d)))))"
    using c2 by (simp add: response_of_def)
  then show "deletedCount (response_of
               (cleanupExpiredOtps e2 (db_of (cleanupExpiredOtps e d)))) = Some 0"
    by (simp only: st none list.size)
  have keep: "filter (\<lambda>r. \<not> expires_at r < clock e2 0)
           (otp_storage (db_of (cleanupExpiredOtps e d)))
      = otp_storage (db_of (cleanupExpiredOtps e d))"
    by (simp only: st all)
  have "db_of (cleanupExpiredOtps e2 (db_of (cleanupExpiredOtps e d))) =
      (db_of (cleanupExpiredOtps e d))\<lparr>otp_storage :=
         filter (\<lambda>r. \<not> expires_at r < clock e2 0)
           (otp_storage (db_of (cleanupExpiredOtps e d)))\<rparr>"
    using c2 by (simp add: db_of_def)
  then show "db_of (cleanupExpiredOtps e2 (db_of (cleanupExpiredOtps e d))) =
               db_of (cleanupExpiredOtps e d)"
    by (simp add: keep)
qed

theorem cleanup_deletes_exactly_expired_witness:
  "dbPool_set demo_env \<and> dbPool_set later_env
   \<and> map expires_at (otp_storage otp_db) = [100, 999999]
   \<and> clock demo_env 0 = 5000 \<and> clock later_env 0 = 6000
   \<and> map email (otp_storage (db_of (cleanupExpiredOtps demo_env otp_db))) = [''c@d.com'']
   \<and> deletedCount (response_of (cleanupExpiredOtps demo_env otp_db)) = Some 1
   \<and> deletedCount (response_of
        (cleanupExpiredOtps later_env (db_of (cleanupExpiredOtps demo_env otp_db)))) = Some 0
   \<and> db_of (cleanupExpiredOtps later_env (db_of (cleanupExpiredOtps demo_env otp_db)))
        = db_of (cleanupExpiredOtps demo_env otp_db)"
proof -
  have p: "dbPool_set demo_env" and p2: "dbPool_set later_env"
    and x: "map expires_at (otp_storage otp_db) = [100, 999999]"
    and k: "clock demo_env 0 = 5000" "clock later_env 0 = 6000"
    by (simp_all add: demo_defs later_env_def otp_db_def)
  have h: "\<forall>r\<in>set (otp_storage otp_db).
      \<not> expires_at r < clock demo_env 0 \<longrightarrow> \<not> expires_at r < clock later_env 0"
    by (simp add: demo_defs later_env_def otp_db_def)
  note t = cleanup_deletes_exactly_expired [OF p, of otp_db later_env]
  from t have "otp_storage (db_of (cleanupExpiredOtps demo_env otp_db)) =
           filter (\<lambda>r. \<not> expires_at r < clock demo_env 0) (otp_storage otp_db)" by blast
  then have a: "map email (otp_storage (db_of (cleanupExpiredOtps demo_env otp_db))) = [''c@d.com'']"
    by (simp add: k otp_db_def)
  from t have "deletedCount (response_of (cleanupExpiredOtps demo_env otp_db)) =
         Some (length (filter (\<lambda>r. expires_at r < clock demo_env 0) (otp_storage otp_db)))"
    by blast
  then have b: "deletedCount (response_of (cleanupExpiredOtps demo_env otp_db)) = Some 1"
    by (simp add: k otp_db_def)
  from t p2 h have c: "deletedCount (response_of
        (cleanupExpiredOtps later_env (db_of (cleanupExpiredOtps demo_env otp_db)))) = Some 0
     \<and> db_of (cleanupExpiredOtps later_env (db_of (cleanupExpiredOtps demo_env otp_db)))
        = db_of (cleanupExpiredOtps demo_env otp_db)"
    by blast
  from p p2 x k a b c show ?thesis by blast
qed

lemma createBooking_phases:
  "(response_of (createBooking e d q), db_of (createBooking e d q)) =
     (case createBooking_check e d q of
        Some r \<Rightarrow> (r, d)
      | None \<Rightarrow> createBooking_write e d q)"
  by (simp add: createBooking_def createBooking_check_def createBooking_write_def
      response_of_def db_of_def Let_def split: list.splits sum.splits)

lemma createBooking_no_transaction:
  "Begin \<notin> set (effects_of (createBooking e d q))
   \<and> Commit \<notin> set (effects_of (createBooking e d q))
   \<and> Sql Transaction s t \<notin> set (effects_of (createBooking e d q))"
  using createBooking_effects [of e d q] sendEmail_effects [of e "confirmation_mail q"]
  by auto

text \<open>
  C1. The specification has no two distinct confirmed bookings of one room overlap
  (\<open>A.start < B.end \<and> A.end > B.start\<close>) after every \<open>createBooking\<close>. The
  handler asks for overlapping bookings and inserts afterwards, as two statements on
  the pool with an \<open>await\<close> between them. On the store of the scenario, which has the
  property, two requests for overlapping slots of room 1 both pass the availability
  query before either inserts; both are answered 201, and the store then holds two
  confirmed bookings of room 1 that overlap.
\<close>

theorem createBooking_interleaved_breaks_no_overlap:
  "no_overlap (room_bookings demo_db)
   \<and> createBooking_check demo_env demo_db (demo_req 1 7200000 10800000 5) = None
   \<and> createBooking_check other_env demo_db (demo_req 1 9000000 12600000 5) = None
   \<and> http_status (fst (createBooking_write demo_env demo_db
        (demo_req 1 7200000 10800000 5))) = 201
   \<and> http_status (fst (createBooking_write other_env
        (snd (createBooking_write demo_env demo_db (demo_req 1 7200000 10800000 5)))
        (demo_req 1 9000000 12600000 5))) = 201
   \<and> room_bookings (snd (createBooking_write other_env
        (snd (createBooking_write demo_env demo_db (demo_req 1 7200000 10800000 5)))
        (demo_req 1 9000000 12600000 5))) =
       [demo_booking, new_booking demo_env (demo_req 1 7200000 10800000 5),
        new_booking other_env (demo_req 1 9000000 12600000 5)]
   \<and> clash (new_booking demo_env (demo_req 1 7200000 10800000 5))
        (new_booking other_env (demo_req 1 9000000 12600000 5))
   \<and> \<not> no_overlap (room_bookings (snd (createBooking_write other_env
        (snd (createBooking_write demo_env demo_db (demo_req 1 7200000 10800000 5)))
        (demo_req 1 9000000 12600000 5))))"
  by (simp add: eval_defs demo_defs other_env_def createBooking_check_def
      createBooking_write_def clash_def overlap_def)

text \<open>
  C2. The specification has the availability query and the \<open>INSERT\<close> of
  \<open>createBooking\<close> inside one database transaction. In the code both go through
  \<open>dbPool.request()\<close>, with no \<open>Begin\<close> and no \<open>Commit\<close>, while
  \<open>updateBooking\<close> brackets its statements in a transaction. With the two
  statements committed apart, two requests for overlapping slots can both pass the
  availability query on the same store before either inserts, and both rows are
  written; run one after the other, the second is answered 409.
\<close>

theorem createBooking_check_and_insert_not_atomic:
  "effects_of (createBooking demo_env demo_db (demo_req 1 7200000 10800000 5)) =
     [Sql Pool SELECT ''rooms'', Sql Pool SELECT ''room_bookings'',
      Sql Pool INSERT ''room_bookings'',
      SendMail \<lparr>mail_to = ''bob@example.com'',
                mail_subject = ''Booking Confirmed: Review at Orion''\<rparr>]
   \<and> effects_of (updateBooking demo_env demo_db ''uuid-1'' (demo_req 1 7200000 10800000 5)) =
     [Begin, Sql Transaction SELECT ''room_bookings'', Sql Transaction SELECT ''rooms'',
      Sql Transaction SELECT ''room_bookings'', Sql Transaction UPDATE ''room_bookings'',
      Commit,
      SendMail \<lparr>mail_to = ''bob@example.com'',
                mail_subject = ''Booking Rescheduled: Review at Orion''\<rparr>]
   \<and> createBooking_check demo_env demo_db (demo_req 1 7200000 10800000 5) = None
   \<and> createBooking_check other_env demo_db (demo_req 1 9000000 12600000 5) = None
   \<and> map (\<lambda>b. (event_id b, room_id b, status b, start_datetime b, end_datetime b))
        (room_bookings (snd (createBooking_write other_env
           (snd (createBooking_write demo_env demo_db (demo_req 1 7200000 10800000 5)))
           (demo_req 1 9000000 12600000 5)))) =
       [(''uuid-1'', 1, ''confirmed'', 3600000, 7200000),
        (''uuid-2'', 1, ''confirmed'', 7200000, 10800000),
        (''uuid-3'', 1, ''confirmed'', 9000000, 12600000)]
   \<and> http_status (response_of (createBooking other_env
        (db_of (createBooking demo_env demo_db (demo_req 1 7200000 10800000 5)))
        (demo_req 1 9000000 12600000 5))) = 409"
  by (simp add: eval_defs demo_defs other_env_def createBooking_check_def
      createBooking_write_def)

text \<open>
  C3. The specification has \<open>createBookingAdmin\<close> apply the room, capacity and
  conflict gates of \<open>createBooking\<close>. In the code it inserts right after the field
  check. On the store of the scenario it answers 201 and writes the row for an interval
  that overlaps the confirmed booking of the room, for 50 participants in the room of
  capacity 10, and for a room that does not exist; \<open>createBooking\<close> answers 409,
  400 and 404 to the same requests.
\<close>

theorem createBookingAdmin_applies_no_gate:
  "http_status (response_of (createBookingAdmin demo_env demo_db (demo_req 1 5400000 9000000 5))) = 201
   \<and> room_bookings (db_of (createBookingAdmin demo_env demo_db (demo_req 1 5400000 9000000 5)))
       = [demo_booking, admin_booking demo_env (demo_req 1 5400000 9000000 5)]
   \<and> clash demo_booking (admin_booking demo_env (demo_req 1 5400000 9000000 5))
   \<and> http_status (response_of (createBooking demo_env demo_db (demo_req 1 5400000 9000000 5))) = 409
   \<and> map capacity (rooms demo_db) = [10]
   \<and> http_status (response_of (createBookingAdmin demo_env demo_db (demo_req 1 7200000 10800000 50))) = 201
   \<and> map total_participants
        (room_bookings (db_of (createBookingAdmin demo_env demo_db (demo_req 1 7200000 10800000 50))))
       = [5, 50]
   \<and> http_status (response_of (createBooking demo_env demo_db (demo_req 1 7200000 10800000 50))) = 400
   \<and> map id_room (rooms demo_db) = [1]
   \<and> http_status (response_of (createBookingAdmin demo_env demo_db (demo_req 99 7200000 10800000 5))) = 201
   \<and> map room_id
        (room_bookings (db_of (createBookingAdmin demo_env demo_db (demo_req 99 7200000 10800000 5))))
       = [1, 99]
   \<and> http_status (response_of (createBooking demo_env demo_db (demo_req 99 7200000 10800000 5))) = 404"
  by (simp add: eval_defs demo_defs clash_def overlap_def)

end
